theory Spec2Isabelle
  imports Main
begin

section \<open>JavaScript values\<close>

text \<open>
  Errors are values. \<open>TypeError\<close> carries its message, \<open>SystemError\<close> the \<open>code\<close>
  property a failed file-system call sets (\<open>ENOENT\<close>, \<open>EACCES\<close>, ...), \<open>SyntaxError\<close> is what
  \<open>JSON.parse\<close> throws and \<open>CryptoError\<close> what a cipher throws.
\<close>

datatype error =
    TypeError string
  | SystemError string
  | SyntaxError string
  | CryptoError string

text \<open>
  The values the library handles. Numbers are restricted to integers (no function of the
  library inspects a number beyond its truthiness); a \<open>Buffer\<close> is its byte string; an object
  is the list of its own enumerable properties in insertion order; a function is identified
  by its source text, which is what \<open>String(f)\<close> returns.
\<close>

datatype jsval =
    JUndefined
  | JNull
  | JBool bool
  | JNum int
  | JStr string
  | JBuffer string
  | JArr "jsval list"
  | JObj "(string \<times> jsval) list"
  | JFun string
  | JError error

fun truthy :: "jsval \<Rightarrow> bool" where
  "truthy JUndefined = False"
| "truthy JNull = False"
| "truthy (JBool b) = b"
| "truthy (JNum n) = (n \<noteq> 0)"
| "truthy (JStr s) = (s \<noteq> [])"
| "truthy _ = True"

text \<open>\<open>args[i]\<close>: reading past the end of an array gives \<open>undefined\<close>.\<close>

definition arg :: "nat \<Rightarrow> jsval list \<Rightarrow> jsval" where
  "arg i args = (if i < length args then args ! i else JUndefined)"

subsection \<open>String conversion and \<open>Array.prototype.join\<close>\<close>

definition digit_char :: "nat \<Rightarrow> char" where
  "digit_char d = char_of (48 + d)"

fun dec_nat :: "nat \<Rightarrow> string" where
  "dec_nat n = (if n < 10 then [digit_char n] else dec_nat (n div 10) @ [digit_char (n mod 10)])"

definition dec_int :: "int \<Rightarrow> string" where
  "dec_int i = (if i < 0 then CHR ''-'' # dec_nat (nat (- i)) else dec_nat (nat i))"

fun error_text :: "error \<Rightarrow> string" where
  "error_text (TypeError m) = ''TypeError: '' @ m"
| "error_text (SystemError c) = ''Error: '' @ c"
| "error_text (SyntaxError m) = ''SyntaxError: '' @ m"
| "error_text (CryptoError m) = ''Error: '' @ m"

text \<open>
  \<open>join_elems sep xs\<close> is \<open>xs.join(sep)\<close>: an element that is \<open>undefined\<close> or \<open>null\<close>
  contributes the empty string, every other element its string conversion; the string
  conversion of an array is its join with a comma.
\<close>

fun ToString :: "jsval \<Rightarrow> string"
  and join_elem :: "jsval \<Rightarrow> string"
  and join_elems :: "string \<Rightarrow> jsval list \<Rightarrow> string" where
  "ToString JUndefined = ''undefined''"
| "ToString JNull = ''null''"
| "ToString (JBool b) = (if b then ''true'' else ''false'')"
| "ToString (JNum n) = dec_int n"
| "ToString (JStr s) = s"
| "ToString (JBuffer b) = b"
| "ToString (JArr xs) = join_elems '','' xs"
| "ToString (JObj kvs) = ''[object Object]''"
| "ToString (JFun src) = src"
| "ToString (JError e) = error_text e"
| "join_elem x = (if x = JUndefined \<or> x = JNull then [] else ToString x)"
| "join_elems sep [] = []"
| "join_elems sep [x] = join_elem x"
| "join_elems sep (x # y # ys) = join_elem x @ sep @ join_elems sep (y # ys)"

section \<open>Key paths (\<open>lib/keypath.js\<close>)\<close>

text \<open>
  \<^verbatim>\<open>
  function isKeyPath(keyPath) {
    if (typeof keyPath === 'string') return true;
    if (Array.isArray(keyPath)) {
      for (let i = 0, len = keyPath.length; i < len; i++) {
        if (isKeyPath(keyPath[i]) && i === len - 1) {
          return true;
        }
      }
    }
    return false;
  }
  \<close>
  The loop visits the elements in order; \<open>i === len - 1\<close> holds exactly when no element
  follows the current one.
\<close>

fun isKeyPath :: "jsval \<Rightarrow> bool"
  and isKeyPath_loop :: "jsval list \<Rightarrow> bool" where
  "isKeyPath (JStr s) = True"
| "isKeyPath (JArr xs) = isKeyPath_loop xs"
| "isKeyPath JUndefined = False"
| "isKeyPath JNull = False"
| "isKeyPath (JBool b) = False"
| "isKeyPath (JNum n) = False"
| "isKeyPath (JBuffer b) = False"
| "isKeyPath (JObj kvs) = False"
| "isKeyPath (JFun src) = False"
| "isKeyPath (JError e) = False"
| "isKeyPath_loop [] = False"
| "isKeyPath_loop (x # rest) = (if isKeyPath x \<and> rest = [] then True else isKeyPath_loop rest)"

text \<open>
  \<^verbatim>\<open>
  function flattenKeyPath(keyPath) {
    if (Array.isArray(keyPath)) {
      return keyPath.map((a) => flattenKeyPath(a)).join('.');
    } else {
      return keyPath;
    }
  }
  \<close>
\<close>

fun flattenKeyPath :: "jsval \<Rightarrow> jsval" where
  "flattenKeyPath (JArr xs) = JStr (join_elems ''.'' (map flattenKeyPath xs))"
| "flattenKeyPath v = v"

section \<open>The world the library runs in\<close>

subsection \<open>Configuration objects\<close>

text \<open>
  The module variable \<open>config\<close> holds a plain object; \<open>config.k\<close> is \<open>undefined\<close> when the
  object has no property \<open>k\<close>.
\<close>

type_synonym config = "string \<Rightarrow> jsval option"

definition cfg_get :: "config \<Rightarrow> string \<Rightarrow> jsval" where
  "cfg_get cfg k = (case cfg k of None \<Rightarrow> JUndefined | Some v \<Rightarrow> v)"

fun err_code :: "error \<Rightarrow> string option" where
  "err_code (SystemError c) = Some c"
| "err_code _ = None"

text \<open>\<open>err.code === c\<close> for a callback's error argument.\<close>

fun has_code :: "jsval \<Rightarrow> string \<Rightarrow> bool" where
  "has_code (JError e) c = (err_code e = Some c)"
| "has_code _ c = False"

text \<open>
  The own enumerable properties \<open>Object.assign\<close> copies from a source: those of an object,
  the indices of an array, of a string and of a buffer, none for \<open>undefined\<close>, \<open>null\<close>,
  booleans, numbers and functions. An error of the model carries only its \<open>code\<close>.
\<close>

fun own_props :: "jsval \<Rightarrow> config" where
  "own_props (JObj kvs) = map_of kvs"
| "own_props (JArr xs) = map_of (zip (map dec_nat [0..<length xs]) xs)"
| "own_props (JStr s) = map_of (zip (map dec_nat [0..<length s]) (map (\<lambda>c. JStr [c]) s))"
| "own_props (JBuffer b) =
     map_of (zip (map dec_nat [0..<length b]) (map (\<lambda>c. JNum (int (of_char c))) b))"
| "own_props (JError e) = (case err_code e of None \<Rightarrow> Map.empty | Some c \<Rightarrow> [''code'' \<mapsto> JStr c])"
| "own_props _ = Map.empty"

subsection \<open>What the library requires from outside\<close>

text \<open>
  \<open>lib/settings.js\<close> requires \<open>crypto\<close>, \<open>electron\<close>, \<open>graceful-fs\<close>, \<open>key-path-helpers\<close>,
  \<open>mkdirp\<close>, \<open>path\<close>, \<open>write-file-atomic\<close> and its own \<open>./defaults\<close>, and uses the built-in
  \<open>JSON\<close>. None of them is part of the library; they are the fields of an environment,
  and every theorem below holds for every environment. \<open>'fs\<close> is the state of the file
  system.

  \<^item> \<open>electron_app e\<close> is \<open>e.app || e.remote.app\<close>, \<open>app_getPath app n\<close> is \<open>app.getPath(n)\<close>.
  \<^item> \<open>crypto_cipher alg key data\<close> is the body of \<open>encryptData\<close> after the two reads of
    \<open>config\<close>: \<open>Buffer.from(data)\<close> run through \<open>crypto.createCipher(alg, key)\<close>;
    \<open>crypto_decipher\<close> likewise for \<open>decryptData\<close>, ending in \<open>toString('utf8')\<close>.
  \<^item> \<open>sys_stat\<close> and \<open>sys_readFile\<close> report on a file-system state, \<open>sys_writeFile\<close>,
    \<open>sys_writeFileAtomic\<close> and \<open>sys_mkdirp\<close> also return the new state.
  \<^item> the four \<open>key-path-helpers\<close> functions; the two that mutate their object return
    the object after the mutation.
\<close>

record 'fs env =
  defaults :: config
  electron :: jsval
  electron_app :: "jsval \<Rightarrow> error + jsval"
  app_getPath :: "jsval \<Rightarrow> jsval \<Rightarrow> error + jsval"
  path_join :: "jsval \<Rightarrow> jsval \<Rightarrow> error + jsval"
  json_stringify :: "jsval \<Rightarrow> jsval \<Rightarrow> error + jsval"
  json_parse :: "jsval \<Rightarrow> error + jsval"
  crypto_cipher :: "jsval \<Rightarrow> jsval \<Rightarrow> jsval \<Rightarrow> error + jsval"
  crypto_decipher :: "jsval \<Rightarrow> jsval \<Rightarrow> jsval \<Rightarrow> error + jsval"
  sys_stat :: "'fs \<Rightarrow> jsval \<Rightarrow> error option"
  sys_readFile :: "'fs \<Rightarrow> jsval \<Rightarrow> jsval \<Rightarrow> error + jsval"
  sys_writeFile :: "'fs \<Rightarrow> jsval \<Rightarrow> jsval \<Rightarrow> error option \<times> 'fs"
  sys_writeFileAtomic :: "'fs \<Rightarrow> jsval \<Rightarrow> jsval \<Rightarrow> error option \<times> 'fs"
  sys_mkdirp :: "'fs \<Rightarrow> jsval \<Rightarrow> error option \<times> 'fs"
  kph_getValueAtKeyPath :: "jsval \<Rightarrow> jsval \<Rightarrow> error + jsval"
  kph_hasKeyPath :: "jsval \<Rightarrow> jsval \<Rightarrow> error + jsval"
  kph_setValueAtKeyPath :: "jsval \<Rightarrow> jsval \<Rightarrow> jsval \<Rightarrow> error + jsval"
  kph_deleteValueAtKeyPath :: "jsval \<Rightarrow> jsval \<Rightarrow> error + jsval"

subsection \<open>State\<close>

text \<open>
  What a call can observe or change: every file-system call started, every call of a
  function the caller supplied, and every exception that reached the event loop.
\<close>

datatype event =
    Stat jsval
  | ReadFile jsval jsval
  | WriteFile jsval jsval
  | WriteFileAtomic jsval jsval
  | Mkdirp jsval
  | Invoke jsval "jsval list"
  | Uncaught error

text \<open>
  \<open>config\<close> is the module variable, \<open>disk\<close> the file system, \<open>trace\<close> the events so far.
  \<open>interleave\<close> is the rest of the program: its \<open>n\<close>-th entry lists the arguments of the
  \<open>configure\<close> calls the program makes while an asynchronous operation waits for the \<open>n\<close>-th
  time.
\<close>

record 'fs world =
  config :: config
  disk :: "'fs"
  trace :: "event list"
  interleave :: "jsval list list"

type_synonym ('a, 'fs) action = "'fs world \<Rightarrow> (error + 'a) \<times> 'fs world"

type_synonym 'fs callback = "jsval list \<Rightarrow> (unit, 'fs) action"

definition record_event :: "event \<Rightarrow> 'fs world \<Rightarrow> 'fs world" where
  "record_event ev w = w\<lparr>trace := trace w @ [ev]\<rparr>"

text \<open>
  \<open>try { body } catch (e) { handler }\<close>: what \<open>body\<close> did before it threw stays done.
\<close>

definition try_catch ::
  "('a, 'fs) action \<Rightarrow> (error \<Rightarrow> ('a, 'fs) action) \<Rightarrow> ('a, 'fs) action" where
  "try_catch body handler w =
     (case body w of (Inl e, w1) \<Rightarrow> handler e w1 | (Inr x, w1) \<Rightarrow> (Inr x, w1))"

text \<open>
  \<open>fn(...args)\<close> for a value \<open>fn\<close> the caller supplied. What a caller's function does is
  its own business: the model records the call. Calling a value that is not a function
  throws.
\<close>

fun call :: "jsval \<Rightarrow> 'fs callback" where
  "call (JFun src) args w = (Inr (), record_event (Invoke (JFun src) args) w)"
| "call v args w = (Inl (TypeError ''fn is not a function''), w)"

subsection \<open>\<open>configure\<close> and \<open>reset\<close>\<close>

text \<open>
  \<^verbatim>\<open>
  let config = Object.assign({}, defaults);

  function reset() {
    config = Object.assign({}, defaults);
  }

  function configure(opts) {
    config = Object.assign({}, defaults, config, opts);
  }
  \<close>
  \<open>Object.assign\<close> copies the properties of its sources from left to right, a later
  source overwriting an earlier one.
\<close>

definition object_assign :: "config \<Rightarrow> config list \<Rightarrow> config" where
  "object_assign target sources = foldl (++) target sources"

definition initial_config :: "'fs env \<Rightarrow> config" where
  "initial_config env = object_assign Map.empty [defaults env]"

definition reset :: "'fs env \<Rightarrow> 'fs world \<Rightarrow> 'fs world" where
  "reset env w = w\<lparr>config := object_assign Map.empty [defaults env]\<rparr>"

definition configure :: "'fs env \<Rightarrow> jsval \<Rightarrow> 'fs world \<Rightarrow> 'fs world" where
  "configure env opts w =
     w\<lparr>config := object_assign Map.empty [defaults env, config w, own_props opts]\<rparr>"

datatype config_call = Reset | Configure jsval

fun run_config_call :: "'fs env \<Rightarrow> config_call \<Rightarrow> 'fs world \<Rightarrow> 'fs world" where
  "run_config_call env Reset w = reset env w"
| "run_config_call env (Configure opts) w = configure env opts w"

definition config_calls :: "'fs env \<Rightarrow> config_call list \<Rightarrow> 'fs world \<Rightarrow> 'fs world" where
  "config_calls env cs w = fold (run_config_call env) cs w"

subsection \<open>Synchronous and asynchronous file-system calls\<close>

text \<open>
  An asynchronous call returns at once and runs its callback in a later turn of the event
  loop. Before that turn the rest of the program runs: \<open>yield\<close> performs the \<open>configure\<close>
  calls scheduled for this wait. An exception the callback throws reaches the event loop,
  not the code that started the call. In \<open>lib/settings.js\<close> every asynchronous call is the
  last thing its caller does, so running the callback in place keeps the order of events.
  The file-system functions report every failure through the callback, with the error as
  its first argument; \<open>fs\<close> and \<open>mkdirp\<close> report success with \<open>null\<close> there. What else
  \<open>fs.stat\<close> and \<open>mkdirp\<close> pass on success goes to callbacks of the library that take the
  error only.
\<close>

definition yield :: "'fs env \<Rightarrow> 'fs world \<Rightarrow> 'fs world" where
  "yield env w =
     (case interleave w of
        [] \<Rightarrow> w
      | cs # rest \<Rightarrow> fold (configure env) cs (w\<lparr>interleave := rest\<rparr>))"

text \<open>The world once a callback has run: what it threw went to the event loop.\<close>

definition settle :: "(error + unit) \<times> 'fs world \<Rightarrow> 'fs world" where
  "settle r = (case r of (Inl e, w1) \<Rightarrow> record_event (Uncaught e) w1 | (Inr u, w1) \<Rightarrow> w1)"

definition later :: "'fs env \<Rightarrow> (unit, 'fs) action \<Rightarrow> (unit, 'fs) action" where
  "later env k w = (Inr (), settle (k (yield env w)))"

text \<open>
  \<open>wait env ev w\<close> is the world in which the callback of an asynchronous call runs: the
  call \<open>ev\<close> was started in \<open>w\<close> and the program has run while it was pending.
\<close>

definition wait :: "'fs env \<Rightarrow> event \<Rightarrow> 'fs world \<Rightarrow> 'fs world" where
  "wait env ev w = yield env (record_event ev w)"

text \<open>
  An action is blocking when it never waits: it runs the same whatever the rest of the
  program has scheduled, leaves the schedule as it is, and ends with the configuration it
  started with.
\<close>

definition blocking :: "('a, 'fs) action \<Rightarrow> bool" where
  "blocking f \<longleftrightarrow>
     (\<forall>w cs. f (w\<lparr>interleave := cs\<rparr>) = (fst (f w), (snd (f w))\<lparr>interleave := cs\<rparr>))
     \<and> (\<forall>w. config (snd (f w)) = config w)"

definition err_arg :: "error option \<Rightarrow> jsval" where
  "err_arg r = (case r of None \<Rightarrow> JNull | Some e \<Rightarrow> JError e)"

definition fs_stat :: "'fs env \<Rightarrow> jsval \<Rightarrow> 'fs callback \<Rightarrow> (unit, 'fs) action" where
  "fs_stat env p fn w =
     later env (\<lambda>w1. fn [err_arg (sys_stat env (disk w1) p)] w1) (record_event (Stat p) w)"

definition fs_statSync :: "'fs env \<Rightarrow> jsval \<Rightarrow> (unit, 'fs) action" where
  "fs_statSync env p w =
     (case sys_stat env (disk w) p of
        Some e \<Rightarrow> (Inl e, record_event (Stat p) w)
      | None \<Rightarrow> (Inr (), record_event (Stat p) w))"

definition fs_readFile :: "'fs env \<Rightarrow> jsval \<Rightarrow> jsval \<Rightarrow> 'fs callback \<Rightarrow> (unit, 'fs) action" where
  "fs_readFile env p encoding fn w =
     later env
       (\<lambda>w1. case sys_readFile env (disk w1) p encoding of
                Inl e \<Rightarrow> fn [JError e] w1
              | Inr data \<Rightarrow> fn [JNull, data] w1)
       (record_event (ReadFile p encoding) w)"

definition fs_readFileSync :: "'fs env \<Rightarrow> jsval \<Rightarrow> jsval \<Rightarrow> (jsval, 'fs) action" where
  "fs_readFileSync env p encoding w =
     (sys_readFile env (disk w) p encoding, record_event (ReadFile p encoding) w)"

definition fs_writeFile :: "'fs env \<Rightarrow> jsval \<Rightarrow> jsval \<Rightarrow> 'fs callback \<Rightarrow> (unit, 'fs) action" where
  "fs_writeFile env p data fn w =
     later env
       (\<lambda>w1. case sys_writeFile env (disk w1) p data of
                (r, d) \<Rightarrow> fn [err_arg r] (w1\<lparr>disk := d\<rparr>))
       (record_event (WriteFile p data) w)"

definition fs_writeFileSync :: "'fs env \<Rightarrow> jsval \<Rightarrow> jsval \<Rightarrow> (unit, 'fs) action" where
  "fs_writeFileSync env p data w =
     (case sys_writeFile env (disk w) p data of
        (Some e, d) \<Rightarrow> (Inl e, (record_event (WriteFile p data) w)\<lparr>disk := d\<rparr>)
      | (None, d) \<Rightarrow> (Inr (), (record_event (WriteFile p data) w)\<lparr>disk := d\<rparr>))"

text \<open>\<open>write-file-atomic\<close> calls back with the error, and with no argument on success.\<close>

definition writeFileAtomic :: "'fs env \<Rightarrow> jsval \<Rightarrow> jsval \<Rightarrow> 'fs callback \<Rightarrow> (unit, 'fs) action" where
  "writeFileAtomic env p data fn w =
     later env
       (\<lambda>w1. case sys_writeFileAtomic env (disk w1) p data of
                (Some e, d) \<Rightarrow> fn [JError e] (w1\<lparr>disk := d\<rparr>)
              | (None, d) \<Rightarrow> fn [] (w1\<lparr>disk := d\<rparr>))
       (record_event (WriteFileAtomic p data) w)"

definition writeFileAtomic_sync :: "'fs env \<Rightarrow> jsval \<Rightarrow> jsval \<Rightarrow> (unit, 'fs) action" where
  "writeFileAtomic_sync env p data w =
     (case sys_writeFileAtomic env (disk w) p data of
        (Some e, d) \<Rightarrow> (Inl e, (record_event (WriteFileAtomic p data) w)\<lparr>disk := d\<rparr>)
      | (None, d) \<Rightarrow> (Inr (), (record_event (WriteFileAtomic p data) w)\<lparr>disk := d\<rparr>))"

definition mkdirp :: "'fs env \<Rightarrow> jsval \<Rightarrow> 'fs callback \<Rightarrow> (unit, 'fs) action" where
  "mkdirp env dir fn w =
     later env
       (\<lambda>w1. case sys_mkdirp env (disk w1) dir of
                (r, d) \<Rightarrow> fn [err_arg r] (w1\<lparr>disk := d\<rparr>))
       (record_event (Mkdirp dir) w)"

definition mkdirp_sync :: "'fs env \<Rightarrow> jsval \<Rightarrow> (unit, 'fs) action" where
  "mkdirp_sync env dir w =
     (case sys_mkdirp env (disk w) dir of
        (Some e, d) \<Rightarrow> (Inl e, (record_event (Mkdirp dir) w)\<lparr>disk := d\<rparr>)
      | (None, d) \<Rightarrow> (Inr (), (record_event (Mkdirp dir) w)\<lparr>disk := d\<rparr>))"

section \<open>The settings store (\<open>lib/settings.js\<close>)\<close>

text \<open>
  A function of the library that reads the module variable \<open>config\<close> and does nothing else
  takes the variable's current value as \<open>cfg\<close>; the caller passes \<open>config w\<close> for the
  world \<open>w\<close> it runs in. The other functions take and return the world.
\<close>

subsection \<open>Where the file is\<close>

definition getElectron :: "'fs env \<Rightarrow> config \<Rightarrow> jsval" where
  "getElectron env cfg =
     (if truthy (cfg_get cfg ''electron'') then cfg_get cfg ''electron'' else electron env)"

definition getElectronApp :: "'fs env \<Rightarrow> config \<Rightarrow> error + jsval" where
  "getElectronApp env cfg = electron_app env (getElectron env cfg)"

definition getSettingsDirPath :: "'fs env \<Rightarrow> config \<Rightarrow> error + jsval" where
  "getSettingsDirPath env cfg =
     (if truthy (cfg_get cfg ''dir'') then Inr (cfg_get cfg ''dir'')
      else case getElectronApp env cfg of
             Inl e \<Rightarrow> Inl e
           | Inr app \<Rightarrow> app_getPath env app (JStr ''userData''))"

definition getSettingsFilePath :: "'fs env \<Rightarrow> config \<Rightarrow> error + jsval" where
  "getSettingsFilePath env cfg =
     (case getSettingsDirPath env cfg of
        Inl e \<Rightarrow> Inl e
      | Inr dir \<Rightarrow> path_join env dir (cfg_get cfg ''fileName''))"

subsection \<open>Encoding and decoding\<close>

definition encryptData :: "'fs env \<Rightarrow> config \<Rightarrow> jsval \<Rightarrow> error + jsval" where
  "encryptData env cfg data =
     crypto_cipher env (cfg_get cfg ''encryptionAlgorithm'') (cfg_get cfg ''encryptionKey'') data"

definition decryptData :: "'fs env \<Rightarrow> config \<Rightarrow> jsval \<Rightarrow> error + jsval" where
  "decryptData env cfg buffer =
     crypto_decipher env (cfg_get cfg ''encryptionAlgorithm'') (cfg_get cfg ''encryptionKey'') buffer"

text \<open>
  \<^verbatim>\<open>
  function prepareSettingsData(obj) {
    const numSpaces = config.prettify ? config.numSpaces : 0;
    let data = JSON.stringify(obj, null, numSpaces);
    if (config.encryptionKey) {
      data = encryptData(data);
    }
    return data;
  }

  function reconstructSettingsData(data) {
    let maybeDecryptedData = data;
    if (config.encryptionKey) {
      maybeDecryptedData = decryptData(data);
    }
    return JSON.parse(maybeDecryptedData);
  }
  \<close>
\<close>

definition prepareSettingsData :: "'fs env \<Rightarrow> config \<Rightarrow> jsval \<Rightarrow> error + jsval" where
  "prepareSettingsData env cfg obj =
     (let numSpaces = (if truthy (cfg_get cfg ''prettify'') then cfg_get cfg ''numSpaces'' else JNum 0)
      in case json_stringify env obj numSpaces of
           Inl e \<Rightarrow> Inl e
         | Inr data \<Rightarrow>
             if truthy (cfg_get cfg ''encryptionKey'') then encryptData env cfg data
             else Inr data)"

definition reconstructSettingsData :: "'fs env \<Rightarrow> config \<Rightarrow> jsval \<Rightarrow> error + jsval" where
  "reconstructSettingsData env cfg data =
     (case (if truthy (cfg_get cfg ''encryptionKey'') then decryptData env cfg data
            else Inr data) of
        Inl e \<Rightarrow> Inl e
      | Inr maybeDecryptedData \<Rightarrow> json_parse env maybeDecryptedData)"

subsection \<open>Saving\<close>

text \<open>
  \<^verbatim>\<open>
  function ensureSettingsDir(fn) {
    const dir = getSettingsDirPath();
    fs.stat(dir, (err) => {
      if (err) {
        if (err.code === 'ENOENT') {
          mkdirp(dir, fn);
        } else {
          fn(err);
        }
      } else {
        fn(null);
      }
    });
  }
  \<close>
\<close>

definition ensureSettingsDir :: "'fs env \<Rightarrow> 'fs callback \<Rightarrow> (unit, 'fs) action" where
  "ensureSettingsDir env fn w =
     (case getSettingsDirPath env (config w) of
        Inl e \<Rightarrow> (Inl e, w)
      | Inr dir \<Rightarrow>
          fs_stat env dir
            (\<lambda>args. let err = arg 0 args in
               if truthy err then
                 (if has_code err ''ENOENT'' then mkdirp env dir fn else fn [err])
               else fn [JNull])
            w)"

definition ensureSettingsDirSync :: "'fs env \<Rightarrow> (unit, 'fs) action" where
  "ensureSettingsDirSync env w =
     (case getSettingsDirPath env (config w) of
        Inl e \<Rightarrow> (Inl e, w)
      | Inr dir \<Rightarrow>
          try_catch (fs_statSync env dir)
            (\<lambda>err. if err_code err = Some ''ENOENT'' then mkdirp_sync env dir
                   else (\<lambda>w1. (Inl err, w1)))
            w)"

text \<open>
  \<^verbatim>\<open>
  function writeSettingsFile(data, fn) {
    const filePath = getSettingsFilePath();
    ensureSettingsDir((err) => {
      if (err) return fn(err);
      if (config.atomicSave) {
        writeFileAtomic(filePath, data, fn);
      } else {
        fs.writeFile(filePath, data, fn);
      }
    });
  }
  \<close>
  \<open>config.atomicSave\<close> is read when the callback runs.
\<close>

definition writeSettingsFile :: "'fs env \<Rightarrow> jsval \<Rightarrow> 'fs callback \<Rightarrow> (unit, 'fs) action" where
  "writeSettingsFile env data fn w =
     (case getSettingsFilePath env (config w) of
        Inl e \<Rightarrow> (Inl e, w)
      | Inr filePath \<Rightarrow>
          ensureSettingsDir env
            (\<lambda>args w1. let err = arg 0 args in
               if truthy err then fn [err] w1
               else if truthy (cfg_get (config w1) ''atomicSave'')
                    then writeFileAtomic env filePath data fn w1
                    else fs_writeFile env filePath data fn w1)
            w)"

definition writeSettingsFileSync :: "'fs env \<Rightarrow> jsval \<Rightarrow> (unit, 'fs) action" where
  "writeSettingsFileSync env data w =
     (case getSettingsFilePath env (config w) of
        Inl e \<Rightarrow> (Inl e, w)
      | Inr filePath \<Rightarrow>
          (case ensureSettingsDirSync env w of
             (Inl e, w1) \<Rightarrow> (Inl e, w1)
           | (Inr u, w1) \<Rightarrow>
               if truthy (cfg_get (config w1) ''atomicSave'')
               then writeFileAtomic_sync env filePath data w1
               else fs_writeFileSync env filePath data w1))"

definition saveSettingsSync :: "'fs env \<Rightarrow> jsval \<Rightarrow> (unit, 'fs) action" where
  "saveSettingsSync env obj w =
     (case prepareSettingsData env (config w) obj of
        Inl e \<Rightarrow> (Inl e, w)
      | Inr data \<Rightarrow> writeSettingsFileSync env data w)"

text \<open>
  \<^verbatim>\<open>
  function saveSettings(obj, fn) {
    let data;
    try {
      data = prepareSettingsData(obj);
    } catch (err) {
      return fn(err);
    }
    writeSettingsFile(data, fn);
  }
  \<close>
\<close>

definition saveSettings :: "'fs env \<Rightarrow> jsval \<Rightarrow> 'fs callback \<Rightarrow> (unit, 'fs) action" where
  "saveSettings env obj fn w =
     (case prepareSettingsData env (config w) obj of
        Inl err \<Rightarrow> fn [JError err] w
      | Inr data \<Rightarrow> writeSettingsFile env data fn w)"

subsection \<open>Loading\<close>

text \<open>
  \<^verbatim>\<open>
  function readSettingsFile(fn) {
    const filePath = getSettingsFilePath();
    const encoding = config.encryptionKey ? null : 'utf-8';
    fs.readFile(filePath, encoding, (err, data) => {
      if (err) return fn(err);
      try {
        fn(null, reconstructSettingsData(data));
      } catch (err) {
        fn(err);
      }
    });
  }
  \<close>
  The call of \<open>fn\<close> is inside the \<open>try\<close>: when \<open>fn\<close> throws before it returns, \<open>fn\<close> is
  called again with what it threw.
\<close>

definition readSettingsFile :: "'fs env \<Rightarrow> 'fs callback \<Rightarrow> (unit, 'fs) action" where
  "readSettingsFile env fn w =
     (case getSettingsFilePath env (config w) of
        Inl e \<Rightarrow> (Inl e, w)
      | Inr filePath \<Rightarrow>
          (let encoding = (if truthy (cfg_get (config w) ''encryptionKey'') then JNull
                           else JStr ''utf-8'')
           in fs_readFile env filePath encoding
                (\<lambda>args w1. let err = arg 0 args; data = arg 1 args in
                   if truthy err then fn [err] w1
                   else try_catch
                          (\<lambda>w2. case reconstructSettingsData env (config w2) data of
                                   Inl e \<Rightarrow> (Inl e, w2)
                                 | Inr obj \<Rightarrow> fn [JNull, obj] w2)
                          (\<lambda>e. fn [JError e])
                          w1)
                w))"

definition readSettingsFileSync :: "'fs env \<Rightarrow> (jsval, 'fs) action" where
  "readSettingsFileSync env w =
     (case getSettingsFilePath env (config w) of
        Inl e \<Rightarrow> (Inl e, w)
      | Inr filePath \<Rightarrow>
          (let encoding = (if truthy (cfg_get (config w) ''encryptionKey'') then JNull
                           else JStr ''utf-8'')
           in case fs_readFileSync env filePath encoding w of
                (Inl e, w1) \<Rightarrow> (Inl e, w1)
              | (Inr data, w1) \<Rightarrow> (reconstructSettingsData env (config w1) data, w1)))"

text \<open>
  \<^verbatim>\<open>
  function ensureSettingsFile(fn) {
    const filePath = getSettingsFilePath();
    fs.stat(filePath, (err) => {
      if (err) {
        if (err.code === 'ENOENT') {
          saveSettings({}, fn);
        } else {
          fn(err);
        }
      } else {
        fn(null);
      }
    });
  }
  \<close>
\<close>

definition ensureSettingsFile :: "'fs env \<Rightarrow> 'fs callback \<Rightarrow> (unit, 'fs) action" where
  "ensureSettingsFile env fn w =
     (case getSettingsFilePath env (config w) of
        Inl e \<Rightarrow> (Inl e, w)
      | Inr filePath \<Rightarrow>
          fs_stat env filePath
            (\<lambda>args. let err = arg 0 args in
               if truthy err then
                 (if has_code err ''ENOENT'' then saveSettings env (JObj []) fn else fn [err])
               else fn [JNull])
            w)"

definition ensureSettingsFileSync :: "'fs env \<Rightarrow> (unit, 'fs) action" where
  "ensureSettingsFileSync env w =
     (case getSettingsFilePath env (config w) of
        Inl e \<Rightarrow> (Inl e, w)
      | Inr filePath \<Rightarrow>
          try_catch (fs_statSync env filePath)
            (\<lambda>err. if truthy (JError err) then
                      (if err_code err = Some ''ENOENT'' then saveSettingsSync env (JObj [])
                       else (\<lambda>w1. (Inl err, w1)))
                    else (\<lambda>w1. (Inr (), w1)))
            w)"

text \<open>
  \<^verbatim>\<open>
  function loadSettings(fn) {
    ensureSettingsFile((err) => {
      if (err) return fn(err);
      readSettingsFile(fn);
    });
  }
  \<close>
\<close>

definition loadSettings :: "'fs env \<Rightarrow> 'fs callback \<Rightarrow> (unit, 'fs) action" where
  "loadSettings env fn =
     ensureSettingsFile env
       (\<lambda>args. let err = arg 0 args in
          if truthy err then fn [err] else readSettingsFile env fn)"

definition loadSettingsSync :: "'fs env \<Rightarrow> (jsval, 'fs) action" where
  "loadSettingsSync env w =
     (case ensureSettingsFileSync env w of
        (Inl e, w1) \<Rightarrow> (Inl e, w1)
      | (Inr u, w1) \<Rightarrow> readSettingsFileSync env w1)"

subsection \<open>Reading and changing a value\<close>

text \<open>
  \<^verbatim>\<open>
  function getValueAtKeyPath(keyPath, fn) {
    loadSettings((err, obj) => {
      if (err) return fn(err);
      if (keyPath) {
        const val = keyPathHelpers.getValueAtKeyPath(obj, keyPath);
        fn(null, val);
      } else {
        fn(null, obj);
      }
    });
  }
  \<close>
  Here \<open>fn\<close> is the value the caller of the library passed.
\<close>

definition getValueAtKeyPath :: "'fs env \<Rightarrow> jsval \<Rightarrow> jsval \<Rightarrow> (unit, 'fs) action" where
  "getValueAtKeyPath env keyPath fn =
     loadSettings env
       (\<lambda>args w. let err = arg 0 args; obj = arg 1 args in
          if truthy err then call fn [err] w
          else if truthy keyPath then
            (case kph_getValueAtKeyPath env obj keyPath of
               Inl e \<Rightarrow> (Inl e, w)
             | Inr val \<Rightarrow> call fn [JNull, val] w)
          else call fn [JNull, obj] w)"

definition getValueAtKeyPathSync :: "'fs env \<Rightarrow> jsval \<Rightarrow> (jsval, 'fs) action" where
  "getValueAtKeyPathSync env keyPath w =
     (case loadSettingsSync env w of
        (Inl e, w1) \<Rightarrow> (Inl e, w1)
      | (Inr obj, w1) \<Rightarrow>
          if truthy keyPath then (kph_getValueAtKeyPath env obj keyPath, w1)
          else (Inr obj, w1))"

definition hasKeyPath :: "'fs env \<Rightarrow> jsval \<Rightarrow> jsval \<Rightarrow> (unit, 'fs) action" where
  "hasKeyPath env keyPath fn =
     loadSettings env
       (\<lambda>args w. let err = arg 0 args; obj = arg 1 args in
          if truthy err then call fn [err] w
          else (case kph_hasKeyPath env obj keyPath of
                  Inl e \<Rightarrow> (Inl e, w)
                | Inr exists \<Rightarrow> call fn [JNull, exists] w))"

definition hasKeyPathSync :: "'fs env \<Rightarrow> jsval \<Rightarrow> (jsval, 'fs) action" where
  "hasKeyPathSync env keyPath w =
     (case loadSettingsSync env w of
        (Inl e, w1) \<Rightarrow> (Inl e, w1)
      | (Inr obj, w1) \<Rightarrow> (kph_hasKeyPath env obj keyPath, w1))"

text \<open>
  \<^verbatim>\<open>
  function setValueAtKeyPath(keyPath, val, fn) {
    if (keyPath) {
      loadSettings((err, obj) => {
        if (err) return fn(err);
        keyPathHelpers.setValueAtKeyPath(obj, keyPath, val);
        saveSettings(obj, fn);
      });
    } else {
      saveSettings(val, fn);
    }
  }
  \<close>
\<close>

definition setValueAtKeyPath :: "'fs env \<Rightarrow> jsval \<Rightarrow> jsval \<Rightarrow> jsval \<Rightarrow> (unit, 'fs) action" where
  "setValueAtKeyPath env keyPath val fn w =
     (if truthy keyPath then
        loadSettings env
          (\<lambda>args w1. let err = arg 0 args; obj = arg 1 args in
             if truthy err then call fn [err] w1
             else (case kph_setValueAtKeyPath env obj keyPath val of
                     Inl e \<Rightarrow> (Inl e, w1)
                   | Inr obj' \<Rightarrow> saveSettings env obj' (call fn) w1))
          w
      else saveSettings env val (call fn) w)"

definition setValueAtKeyPathSync :: "'fs env \<Rightarrow> jsval \<Rightarrow> jsval \<Rightarrow> (unit, 'fs) action" where
  "setValueAtKeyPathSync env keyPath val w =
     (if truthy keyPath then
        (case loadSettingsSync env w of
           (Inl e, w1) \<Rightarrow> (Inl e, w1)
         | (Inr obj, w1) \<Rightarrow>
             (case kph_setValueAtKeyPath env obj keyPath val of
                Inl e \<Rightarrow> (Inl e, w1)
              | Inr obj' \<Rightarrow> saveSettingsSync env obj' w1))
      else saveSettingsSync env val w)"

text \<open>
  \<^verbatim>\<open>
  function unsetValueAtKeyPath(keyPath, fn) {
    loadSettings((err, obj) => {
      if (err) return fn(err);
      keyPathHelpers.deleteValueAtKeyPath(obj, keyPath);
      saveSettings(obj, fn);
    });
  }
  \<close>
\<close>

definition unsetValueAtKeyPath :: "'fs env \<Rightarrow> jsval \<Rightarrow> jsval \<Rightarrow> (unit, 'fs) action" where
  "unsetValueAtKeyPath env keyPath fn =
     loadSettings env
       (\<lambda>args w1. let err = arg 0 args; obj = arg 1 args in
          if truthy err then call fn [err] w1
          else (case kph_deleteValueAtKeyPath env obj keyPath of
                  Inl e \<Rightarrow> (Inl e, w1)
                | Inr obj' \<Rightarrow> saveSettings env obj' (call fn) w1))"

definition unsetValueAtKeyPathSync :: "'fs env \<Rightarrow> jsval \<Rightarrow> (unit, 'fs) action" where
  "unsetValueAtKeyPathSync env keyPath w =
     (case loadSettingsSync env w of
        (Inl e, w1) \<Rightarrow> (Inl e, w1)
      | (Inr obj, w1) \<Rightarrow>
          (case kph_deleteValueAtKeyPath env obj keyPath of
             Inl e \<Rightarrow> (Inl e, w1)
           | Inr obj' \<Rightarrow> saveSettingsSync env obj' w1))"

subsection \<open>The public functions\<close>

definition file_op :: "'fs env \<Rightarrow> (jsval, 'fs) action" where
  "file_op env w = (getSettingsFilePath env (config w), w)"

text \<open>
  Each public function takes its arguments as the array \<open>args\<close>:
  \<^verbatim>\<open>
  function get(...args) {
    if (isKeyPath(args[0])) {
      args.splice(0, 1, flattenKeyPath(args[0]));
    } else {
      args.splice(0, 0, null);
    }
    getValueAtKeyPath(...args);
  }

  function has(...args) {
    if (isKeyPath(args[0])) {
      args.splice(0, 1, flattenKeyPath(args[0]));
    } else {
      throw new TypeError('The given key path was not valid');
    }
    hasKeyPath(...args);
  }
  \<close>
  \<open>getSync\<close>, \<open>set\<close> and \<open>setSync\<close> prepare \<open>args\<close> as \<open>get\<close> does, \<open>hasSync\<close>, \<open>unset\<close> and
  \<open>unsetSync\<close> as \<open>has\<close> does. \<open>args.splice(0, 1, x)\<close> replaces the first element by \<open>x\<close>,
  \<open>args.splice(0, 0, null)\<close> puts \<open>null\<close> in front of all elements. A function called with
  \<open>...args\<close> takes its first parameter from \<open>args[0]\<close>, its second from \<open>args[1]\<close>, and so on.
\<close>

definition optional_key_path :: "jsval list \<Rightarrow> jsval list" where
  "optional_key_path args =
     (if isKeyPath (arg 0 args) then flattenKeyPath (arg 0 args) # drop 1 args
      else JNull # args)"

definition required_key_path :: "jsval list \<Rightarrow> error + jsval list" where
  "required_key_path args =
     (if isKeyPath (arg 0 args) then Inr (flattenKeyPath (arg 0 args) # drop 1 args)
      else Inl (TypeError ''The given key path was not valid''))"

definition get :: "'fs env \<Rightarrow> jsval list \<Rightarrow> (unit, 'fs) action" where
  "get env args =
     (let args1 = optional_key_path args
      in getValueAtKeyPath env (arg 0 args1) (arg 1 args1))"

definition getSync :: "'fs env \<Rightarrow> jsval list \<Rightarrow> (jsval, 'fs) action" where
  "getSync env args =
     (let args1 = optional_key_path args
      in getValueAtKeyPathSync env (arg 0 args1))"

definition has :: "'fs env \<Rightarrow> jsval list \<Rightarrow> (unit, 'fs) action" where
  "has env args w =
     (case required_key_path args of
        Inl e \<Rightarrow> (Inl e, w)
      | Inr args1 \<Rightarrow> hasKeyPath env (arg 0 args1) (arg 1 args1) w)"

definition hasSync :: "'fs env \<Rightarrow> jsval list \<Rightarrow> (jsval, 'fs) action" where
  "hasSync env args w =
     (case required_key_path args of
        Inl e \<Rightarrow> (Inl e, w)
      | Inr args1 \<Rightarrow> hasKeyPathSync env (arg 0 args1) w)"

definition set_op :: "'fs env \<Rightarrow> jsval list \<Rightarrow> (unit, 'fs) action" where
  "set_op env args =
     (let args1 = optional_key_path args
      in setValueAtKeyPath env (arg 0 args1) (arg 1 args1) (arg 2 args1))"

definition setSync :: "'fs env \<Rightarrow> jsval list \<Rightarrow> (unit, 'fs) action" where
  "setSync env args =
     (let args1 = optional_key_path args
      in setValueAtKeyPathSync env (arg 0 args1) (arg 1 args1))"

definition unset :: "'fs env \<Rightarrow> jsval list \<Rightarrow> (unit, 'fs) action" where
  "unset env args w =
     (case required_key_path args of
        Inl e \<Rightarrow> (Inl e, w)
      | Inr args1 \<Rightarrow> unsetValueAtKeyPath env (arg 0 args1) (arg 1 args1) w)"

definition unsetSync :: "'fs env \<Rightarrow> jsval list \<Rightarrow> (unit, 'fs) action" where
  "unsetSync env args w =
     (case required_key_path args of
        Inl e \<Rightarrow> (Inl e, w)
      | Inr args1 \<Rightarrow> unsetValueAtKeyPathSync env (arg 0 args1) w)"

subsection \<open>What a caller's function receives\<close>

text \<open>
  The callback \<open>getValueAtKeyPath\<close> passes to \<open>loadSettings\<close>, when no key path is
  given: \<open>if (err) return fn(err); fn(null, obj);\<close>.
\<close>

definition deliver :: "jsval \<Rightarrow> 'fs callback" where
  "deliver fn args =
     (if truthy (arg 0 args) then call fn [arg 0 args] else call fn [JNull, arg 1 args])"

subsection \<open>Naming the steps of a cycle\<close>

text \<open>
  Names for what the statements below talk about. \<open>read_encoding cfg\<close> is the encoding
  \<open>readSettingsFile\<close> asks for: \<open>config.encryptionKey ? null : 'utf-8'\<close>.
  \<open>loaded_document env d cfg1 cfg2 p\<close> is what reading the file \<open>p\<close> from the disk \<open>d\<close> with
  the encoding of \<open>cfg1\<close> and decoding it under \<open>cfg2\<close> gives; \<open>stored_document env w p\<close> is
  that for the disk and the configuration of one world. \<open>after_read w p\<close> is \<open>w\<close> once the
  library has looked \<open>p\<close> up and read it without waiting: two more events, nothing else.
\<close>

definition read_encoding :: "config \<Rightarrow> jsval" where
  "read_encoding cfg =
     (if truthy (cfg_get cfg ''encryptionKey'') then JNull else JStr ''utf-8'')"

definition loaded_document ::
  "'fs env \<Rightarrow> 'fs \<Rightarrow> config \<Rightarrow> config \<Rightarrow> jsval \<Rightarrow> error + jsval" where
  "loaded_document env d cfg1 cfg2 p =
     (case sys_readFile env d p (read_encoding cfg1) of
        Inl e \<Rightarrow> Inl e
      | Inr data \<Rightarrow> reconstructSettingsData env cfg2 data)"

definition stored_document :: "'fs env \<Rightarrow> 'fs world \<Rightarrow> jsval \<Rightarrow> error + jsval" where
  "stored_document env w p = loaded_document env (disk w) (config w) (config w) p"

definition after_read :: "'fs world \<Rightarrow> jsval \<Rightarrow> 'fs world" where
  "after_read w p =
     w\<lparr>trace := trace w @ [Stat p, ReadFile p (read_encoding (config w))]\<rparr>"

text \<open>
  The two ways \<open>writeSettingsFile\<close> writes, by the value of \<open>config.atomicSave\<close>: the
  function that writes, the event it leaves, and what the callback receives once the
  write has ended with the result \<open>r\<close>.
\<close>

definition writer :: "'fs env \<Rightarrow> bool \<Rightarrow> 'fs \<Rightarrow> jsval \<Rightarrow> jsval \<Rightarrow> error option \<times> 'fs" where
  "writer env atomic = (if atomic then sys_writeFileAtomic env else sys_writeFile env)"

definition write_event :: "bool \<Rightarrow> jsval \<Rightarrow> jsval \<Rightarrow> event" where
  "write_event atomic p data = (if atomic then WriteFileAtomic p data else WriteFile p data)"

definition write_done :: "bool \<Rightarrow> error option \<Rightarrow> jsval list" where
  "write_done atomic r =
     (case r of Some e \<Rightarrow> [JError e] | None \<Rightarrow> if atomic then [] else [JNull])"

section \<open>An example environment\<close>

text \<open>
  A small environment to run the library in: a file system in memory, a toy cipher, and
  \<open>JSON\<close> on the handful of texts the examples use. The theorems do not depend on it.
\<close>

subsection \<open>A file system in memory\<close>

record memfs =
  dirs :: "string list"
  files :: "(string \<times> string) list"

text \<open>
  The bytes \<open>write-file-atomic\<close> puts in the file: a string or buffer as it is, nothing
  for \<open>undefined\<close> and \<open>null\<close>, and the string conversion of anything else.
\<close>

definition file_bytes :: "jsval \<Rightarrow> string" where
  "file_bytes data =
     (case data of
        JStr s \<Rightarrow> s
      | JBuffer b \<Rightarrow> b
      | JUndefined \<Rightarrow> []
      | JNull \<Rightarrow> []
      | _ \<Rightarrow> ToString data)"

definition mem_stat :: "memfs \<Rightarrow> jsval \<Rightarrow> error option" where
  "mem_stat d p =
     (case p of
        JStr s \<Rightarrow>
          if s \<in> set (dirs d) \<or> map_of (files d) s \<noteq> None then None
          else Some (SystemError ''ENOENT'')
      | _ \<Rightarrow> Some (TypeError ''The path argument must be a string''))"

definition mem_readFile :: "memfs \<Rightarrow> jsval \<Rightarrow> jsval \<Rightarrow> error + jsval" where
  "mem_readFile d p encoding =
     (case p of
        JStr s \<Rightarrow>
          (case map_of (files d) s of
             Some bytes \<Rightarrow> Inr (if encoding = JNull then JBuffer bytes else JStr bytes)
           | None \<Rightarrow>
               if s \<in> set (dirs d) then Inl (SystemError ''EISDIR'')
               else Inl (SystemError ''ENOENT''))
      | _ \<Rightarrow> Inl (TypeError ''The path argument must be a string''))"

definition mem_writeFileAtomic :: "memfs \<Rightarrow> jsval \<Rightarrow> jsval \<Rightarrow> error option \<times> memfs" where
  "mem_writeFileAtomic d p data =
     (case p of
        JStr s \<Rightarrow>
          if s \<in> set (dirs d) then (Some (SystemError ''EISDIR''), d)
          else (None, d\<lparr>files := (s, file_bytes data) # files d\<rparr>)
      | _ \<Rightarrow> (Some (TypeError ''The path argument must be a string''), d))"

text \<open>\<open>fs.writeFile\<close> accepts a string or a buffer as data.\<close>

definition mem_writeFile :: "memfs \<Rightarrow> jsval \<Rightarrow> jsval \<Rightarrow> error option \<times> memfs" where
  "mem_writeFile d p data =
     (case data of
        JStr s \<Rightarrow> mem_writeFileAtomic d p data
      | JBuffer b \<Rightarrow> mem_writeFileAtomic d p data
      | _ \<Rightarrow> (Some (TypeError ''The data argument must be a string or a buffer''), d))"

definition mem_mkdirp :: "memfs \<Rightarrow> jsval \<Rightarrow> error option \<times> memfs" where
  "mem_mkdirp d p =
     (case p of
        JStr s \<Rightarrow>
          if map_of (files d) s \<noteq> None then (Some (SystemError ''EEXIST''), d)
          else (None, d\<lparr>dirs := s # dirs d\<rparr>)
      | _ \<Rightarrow> (Some (TypeError ''The path argument must be a string''), d))"

subsection \<open>Electron, paths, JSON and a cipher\<close>

definition example_electron :: jsval where
  "example_electron = JObj [(''app'', JObj [(''name'', JStr ''example'')])]"

definition example_electron_app :: "jsval \<Rightarrow> error + jsval" where
  "example_electron_app e =
     (if truthy (cfg_get (own_props e) ''app'') then Inr (cfg_get (own_props e) ''app'')
      else case cfg_get (own_props e) ''remote'' of
             JObj r \<Rightarrow> Inr (cfg_get (map_of r) ''app'')
           | _ \<Rightarrow> Inl (TypeError ''Cannot read property app of undefined''))"

definition example_app_getPath :: "jsval \<Rightarrow> jsval \<Rightarrow> error + jsval" where
  "example_app_getPath app name =
     (if name = JStr ''userData'' then Inr (JStr ''/userData'')
      else Inl (TypeError ''Failed to get path''))"

definition example_path_join :: "jsval \<Rightarrow> jsval \<Rightarrow> error + jsval" where
  "example_path_join a b =
     (case (a, b) of
        (JStr d, JStr f) \<Rightarrow> Inr (JStr (d @ ''/'' @ f))
      | _ \<Rightarrow> Inl (TypeError ''Path must be a string''))"

definition example_doc :: jsval where
  "example_doc = JObj [(''a'', JNum 1)]"

text \<open>
  \<open>JSON.stringify\<close> and \<open>JSON.parse\<close> on \<open>undefined\<close>, the empty object and the example
  document, without indentation; \<open>JSON.stringify(undefined)\<close> is \<open>undefined\<close>. No example
  hands them a JSON text other than these two.
\<close>

definition example_json_stringify :: "jsval \<Rightarrow> jsval \<Rightarrow> error + jsval" where
  \<open>example_json_stringify v indent =
     (if v = JUndefined then Inr JUndefined
      else if v = JObj [] then Inr (JStr ''{}'')
      else if v = example_doc \<and> indent = JNum 0 then Inr (JStr ''{"a":1}'')
      else Inl (TypeError ''value outside the example''))\<close>

definition example_json_parse :: "jsval \<Rightarrow> error + jsval" where
  \<open>example_json_parse text =
     (if text = JStr ''{}'' then Inr (JObj [])
      else if text = JStr ''{"a":1}'' then Inr example_doc
      else Inl (SyntaxError ''Unexpected token''))\<close>

text \<open>
  A toy cipher: the text reversed, followed by the key; deciphering checks the key.
\<close>

definition example_cipher :: "jsval \<Rightarrow> jsval \<Rightarrow> jsval \<Rightarrow> error + jsval" where
  "example_cipher alg key data =
     (case (key, data) of
        (JStr k, JStr s) \<Rightarrow> Inr (JBuffer (rev s @ k))
      | _ \<Rightarrow> Inl (TypeError ''The first argument must be a string''))"

definition example_decipher :: "jsval \<Rightarrow> jsval \<Rightarrow> jsval \<Rightarrow> error + jsval" where
  "example_decipher alg key buffer =
     (case (key, buffer) of
        (JStr k, JBuffer b) \<Rightarrow>
          if length k \<le> length b \<and> drop (length b - length k) b = k
          then Inr (JStr (rev (take (length b - length k) b)))
          else Inl (CryptoError ''bad decrypt'')
      | _ \<Rightarrow> Inl (TypeError ''The first argument must be a buffer''))"

text \<open>
  Modelled from the spec: the module \<open>./defaults\<close> is not among the sources. Its values are
  those of the spec's configuration surface: file name \<open>settings.json\<close>, \<open>prettify\<close> false,
  \<open>numSpaces\<close> 0, \<open>atomicSave\<close> true, algorithm \<open>aes-256-cbc\<close>, no key and no directory.
\<close>

definition example_defaults :: config where
  "example_defaults =
     map_of [(''atomicSave'', JBool True),
             (''encryptionAlgorithm'', JStr ''aes-256-cbc''),
             (''fileName'', JStr ''settings.json''),
             (''numSpaces'', JNum 0),
             (''prettify'', JBool False)]"

subsection \<open>Key paths into a document\<close>

text \<open>
  Modelled from the spec: the package \<open>key-path-helpers\<close> is not among the sources. A
  canonical key path splits at each dot that no backslash precedes, and \<^verbatim>\<open>\.\<close> stands for
  a dot inside a segment. \<open>get\<close> returns the value the segments lead to and \<open>undefined\<close>
  when an intermediate value is not a mapping; \<open>has\<close> tells whether \<open>get\<close> finds a
  property; \<open>set\<close> puts an empty mapping where an intermediate one is missing or is not a
  mapping; \<open>delete\<close> removes the last segment's key from its parent when it is there.
\<close>

fun key_segments :: "string \<Rightarrow> string \<Rightarrow> string list" where
  "key_segments [] cur = [cur]"
| "key_segments [c] cur = (if c = CHR ''.'' then [cur, []] else [cur @ [c]])"
| "key_segments (c # d # rest) cur =
     (if c = CHR 0x5C \<and> d = CHR ''.'' then key_segments rest (cur @ ''.'')
      else if c = CHR ''.'' then cur # key_segments (d # rest) []
      else key_segments (d # rest) (cur @ [c]))"

fun tree_get :: "jsval \<Rightarrow> string list \<Rightarrow> jsval" where
  "tree_get v [] = v"
| "tree_get (JObj kvs) (k # ks) =
     (case map_of kvs k of None \<Rightarrow> JUndefined | Some x \<Rightarrow> tree_get x ks)"
| "tree_get v (k # ks) = JUndefined"

fun tree_has :: "jsval \<Rightarrow> string list \<Rightarrow> bool" where
  "tree_has v [] = True"
| "tree_has (JObj kvs) (k # ks) =
     (case map_of kvs k of None \<Rightarrow> False | Some x \<Rightarrow> tree_has x ks)"
| "tree_has v (k # ks) = False"

fun put_prop :: "string \<Rightarrow> jsval \<Rightarrow> (string \<times> jsval) list \<Rightarrow> (string \<times> jsval) list" where
  "put_prop k v [] = [(k, v)]"
| "put_prop k v ((k1, v1) # kvs) =
     (if k1 = k then (k, v) # kvs else (k1, v1) # put_prop k v kvs)"

definition props_of :: "jsval \<Rightarrow> (string \<times> jsval) list" where
  "props_of v = (case v of JObj kvs \<Rightarrow> kvs | _ \<Rightarrow> [])"

fun tree_set :: "jsval \<Rightarrow> string list \<Rightarrow> jsval \<Rightarrow> jsval" where
  "tree_set root [] v = v"
| "tree_set root (k # ks) v =
     JObj (put_prop k (tree_set (cfg_get (map_of (props_of root)) k) ks v) (props_of root))"

fun tree_delete :: "jsval \<Rightarrow> string list \<Rightarrow> jsval" where
  "tree_delete v [] = v"
| "tree_delete (JObj kvs) [k] = JObj (filter (\<lambda>kv. fst kv \<noteq> k) kvs)"
| "tree_delete (JObj kvs) (k # k1 # ks) =
     (case map_of kvs k of
        None \<Rightarrow> JObj kvs
      | Some x \<Rightarrow> JObj (put_prop k (tree_delete x (k1 # ks)) kvs))"
| "tree_delete v (k # ks) = v"

definition key_path_segments :: "jsval \<Rightarrow> string list" where
  "key_path_segments keyPath = (case keyPath of JStr s \<Rightarrow> key_segments s [] | _ \<Rightarrow> [])"

subsection \<open>The environment and a starting world\<close>

definition example_env :: "memfs env" where
  "example_env =
     \<lparr>defaults = example_defaults,
      electron = example_electron,
      electron_app = example_electron_app,
      app_getPath = example_app_getPath,
      path_join = example_path_join,
      json_stringify = example_json_stringify,
      json_parse = example_json_parse,
      crypto_cipher = example_cipher,
      crypto_decipher = example_decipher,
      sys_stat = mem_stat,
      sys_readFile = mem_readFile,
      sys_writeFile = mem_writeFile,
      sys_writeFileAtomic = mem_writeFileAtomic,
      sys_mkdirp = mem_mkdirp,
      kph_getValueAtKeyPath = (\<lambda>obj keyPath. Inr (tree_get obj (key_path_segments keyPath))),
      kph_hasKeyPath = (\<lambda>obj keyPath. Inr (JBool (tree_has obj (key_path_segments keyPath)))),
      kph_setValueAtKeyPath = (\<lambda>obj keyPath val. Inr (tree_set obj (key_path_segments keyPath) val)),
      kph_deleteValueAtKeyPath = (\<lambda>obj keyPath. Inr (tree_delete obj (key_path_segments keyPath)))\<rparr>"

text \<open>
  The user-data directory exists; \<open>example_world fs\<close> has the files \<open>fs\<close> in it, the
  configuration the module starts with, and nothing else going on.
\<close>

definition example_world :: "(string \<times> string) list \<Rightarrow> memfs world" where
  "example_world fs =
     \<lparr>config = initial_config example_env,
      disk = \<lparr>dirs = [''/userData''], files = fs\<rparr>,
      trace = [],
      interleave = []\<rparr>"

section \<open>Basic facts\<close>

lemma arg_simps:
  "arg n [] = JUndefined"
  "arg 0 (x # xs) = x"
  "arg (Suc n) (x # xs) = arg n xs"
  "arg 1 (x # xs) = arg 0 xs"
  "arg 2 (x # xs) = arg 1 xs"
  by (simp_all add: arg_def)

lemma isKeyPath_loop_last: "isKeyPath_loop xs = (xs \<noteq> [] \<and> isKeyPath (last xs))"
  by (induction xs) auto

lemma object_assign_simps:
  "object_assign t [] = t"
  "object_assign t (s # ss) = object_assign (t ++ s) ss"
  by (simp_all add: object_assign_def)

lemma map_add_absorb: "m ++ (m ++ n) = m ++ (n :: 'a \<Rightarrow> 'b option)"
  by (rule ext) (simp add: map_add_def split: option.split)




lemma settle_simps:
  "settle (Inr u, w) = w"
  "settle (Inl e, w) = record_event (Uncaught e) w"
  by (simp_all add: settle_def)

lemmas store_defs =
  get_def getSync_def has_def hasSync_def set_op_def setSync_def unset_def unsetSync_def
  optional_key_path_def required_key_path_def
  getValueAtKeyPath_def getValueAtKeyPathSync_def hasKeyPath_def hasKeyPathSync_def
  setValueAtKeyPath_def setValueAtKeyPathSync_def unsetValueAtKeyPath_def
  unsetValueAtKeyPathSync_def
  loadSettings_def loadSettingsSync_def ensureSettingsFile_def ensureSettingsFileSync_def
  readSettingsFile_def readSettingsFileSync_def saveSettings_def saveSettingsSync_def
  writeSettingsFile_def writeSettingsFileSync_def ensureSettingsDir_def ensureSettingsDirSync_def
  prepareSettingsData_def reconstructSettingsData_def encryptData_def decryptData_def
  getSettingsFilePath_def getSettingsDirPath_def getElectronApp_def getElectron_def
  fs_stat_def fs_statSync_def fs_readFile_def fs_readFileSync_def fs_writeFile_def
  fs_writeFileSync_def writeFileAtomic_def writeFileAtomic_sync_def mkdirp_def mkdirp_sync_def
  later_def settle_simps yield_def try_catch_def record_event_def err_arg_def deliver_def
  configure_def reset_def initial_config_def object_assign_def cfg_get_def Let_def

lemmas example_defs =
  example_env_def example_world_def example_defaults_def example_electron_def
  example_electron_app_def example_app_getPath_def example_path_join_def example_doc_def
  example_json_stringify_def example_json_parse_def example_cipher_def example_decipher_def
  mem_stat_def mem_readFile_def mem_writeFile_def mem_writeFileAtomic_def mem_mkdirp_def
  file_bytes_def

subsection \<open>Blocking actions\<close>

lemma blockingI:
  assumes "\<And>w cs. f (w\<lparr>interleave := cs\<rparr>) = (fst (f w), (snd (f w))\<lparr>interleave := cs\<rparr>)"
    and "\<And>w. config (snd (f w)) = config w"
  shows "blocking f"
  using assms by (simp add: blocking_def)

lemma blocking_script: "blocking f \<Longrightarrow> f (w\<lparr>interleave := cs\<rparr>) = (fst (f w), (snd (f w))\<lparr>interleave := cs\<rparr>)"
  by (simp add: blocking_def)

lemma blocking_config: "blocking f \<Longrightarrow> config (snd (f w)) = config w"
  by (simp add: blocking_def)

lemma blocking_config': "blocking f \<Longrightarrow> f w = (r, w1) \<Longrightarrow> config w1 = config w"
  using blocking_config [of f w] by simp

lemma blocking_pure: "blocking (\<lambda>w. (r, w))"
  by (simp add: blocking_def)

lemma blocking_try_catch:
  assumes "blocking body" and "\<And>e. blocking (handler e)"
  shows "blocking (try_catch body handler)"
proof (rule blockingI)
  fix w cs
  show "try_catch body handler (w\<lparr>interleave := cs\<rparr>)
      = (fst (try_catch body handler w), (snd (try_catch body handler w))\<lparr>interleave := cs\<rparr>)"
    using assms(2)
    by (cases "body w")
       (auto simp add: try_catch_def blocking_script [OF assms(1)] blocking_script split: sum.splits)
next
  fix w
  show "config (snd (try_catch body handler w)) = config w"
    using blocking_config [OF assms(1), of w] blocking_config [OF assms(2)]
    by (cases "body w") (auto simp add: try_catch_def split: sum.splits)
qed

lemma blocking_seq:
  assumes "blocking f" and "\<And>x. blocking (g x)"
  shows "blocking (\<lambda>w. case f w of (Inl e, w1) \<Rightarrow> (Inl e, w1) | (Inr x, w1) \<Rightarrow> g x w1)"
proof (rule blockingI)
  fix w cs
  show "(case f (w\<lparr>interleave := cs\<rparr>) of (Inl e, w1) \<Rightarrow> (Inl e, w1) | (Inr x, w1) \<Rightarrow> g x w1)
      = (fst (case f w of (Inl e, w1) \<Rightarrow> (Inl e, w1) | (Inr x, w1) \<Rightarrow> g x w1),
         (snd (case f w of (Inl e, w1) \<Rightarrow> (Inl e, w1) | (Inr x, w1) \<Rightarrow> g x w1))\<lparr>interleave := cs\<rparr>)"
    using assms(2)
    by (cases "f w") (auto simp add: blocking_script [OF assms(1)] blocking_script split: sum.splits)
next
  fix w
  show "config (snd (case f w of (Inl e, w1) \<Rightarrow> (Inl e, w1) | (Inr x, w1) \<Rightarrow> g x w1)) = config w"
    using blocking_config [OF assms(1), of w] blocking_config [OF assms(2)]
    by (cases "f w") (auto split: sum.splits)
qed

lemma blocking_fs_statSync: "blocking (fs_statSync env p)"
  by (rule blockingI) (simp_all add: fs_statSync_def record_event_def split: option.splits)

lemma blocking_fs_readFileSync: "blocking (fs_readFileSync env p enc)"
  by (rule blockingI) (simp_all add: fs_readFileSync_def record_event_def)

lemma blocking_fs_writeFileSync: "blocking (fs_writeFileSync env p d)"
  by (rule blockingI) (simp_all add: fs_writeFileSync_def record_event_def split: option.splits prod.splits)

lemma blocking_writeFileAtomic_sync: "blocking (writeFileAtomic_sync env p d)"
  by (rule blockingI) (simp_all add: writeFileAtomic_sync_def record_event_def split: option.splits prod.splits)

lemma blocking_mkdirp_sync: "blocking (mkdirp_sync env p)"
  by (rule blockingI) (simp_all add: mkdirp_sync_def record_event_def split: option.splits prod.splits)

lemma blocking_config_case:
  assumes "\<And>x. blocking (g x)"
  shows "blocking (\<lambda>w. case h (config w) of Inl e \<Rightarrow> (Inl e, w) | Inr x \<Rightarrow> g x w)"
  using assms by (auto simp add: blocking_def split: sum.splits)

lemma blocking_config_if:
  assumes "blocking f" and "blocking g"
  shows "blocking (\<lambda>w. if c (config w) then f w else g w)"
  using assms by (auto simp add: blocking_def)

lemma blocking_ensureSettingsDirSync: "blocking (ensureSettingsDirSync env)"
  unfolding ensureSettingsDirSync_def
  by (intro blocking_config_case blocking_try_catch blocking_fs_statSync)
     (simp add: blocking_mkdirp_sync blocking_pure)

lemma blocking_writeSettingsFileSync: "blocking (writeSettingsFileSync env data)"
  unfolding writeSettingsFileSync_def
  by (intro blocking_config_case blocking_seq blocking_ensureSettingsDirSync
        blocking_config_if [where c = "\<lambda>cfg. truthy (cfg_get cfg ''atomicSave'')"]
        blocking_writeFileAtomic_sync blocking_fs_writeFileSync)


lemma blocking_saveSettingsSync: "blocking (saveSettingsSync env obj)"
  unfolding saveSettingsSync_def
  by (intro blocking_config_case blocking_writeSettingsFileSync)

lemma blocking_readSettingsFileSync: "blocking (readSettingsFileSync env)"
  by (rule blockingI)
     (simp_all add: readSettingsFileSync_def Let_def fs_readFileSync_def record_event_def
        split: sum.splits)

lemma blocking_ensureSettingsFileSync: "blocking (ensureSettingsFileSync env)"
  unfolding ensureSettingsFileSync_def
  by (intro blocking_config_case blocking_try_catch blocking_fs_statSync)
     (simp add: blocking_saveSettingsSync blocking_pure)

lemma blocking_loadSettingsSync: "blocking (loadSettingsSync env)"
  unfolding loadSettingsSync_def
  by (intro blocking_seq blocking_ensureSettingsFileSync blocking_readSettingsFileSync)

lemma blocking_getValueAtKeyPathSync: "blocking (getValueAtKeyPathSync env k)"
  unfolding getValueAtKeyPathSync_def
  by (intro blocking_seq blocking_loadSettingsSync) (simp add: blocking_def)

lemma blocking_hasKeyPathSync: "blocking (hasKeyPathSync env k)"
  unfolding hasKeyPathSync_def
  by (intro blocking_seq blocking_loadSettingsSync) (simp add: blocking_pure)

lemma blocking_kph_then_save:
  "blocking (\<lambda>w. case r of Inl e \<Rightarrow> (Inl e, w) | Inr obj \<Rightarrow> saveSettingsSync env obj w)"
  by (cases r) (simp_all add: blocking_pure blocking_saveSettingsSync)

lemma blocking_setValueAtKeyPathSync: "blocking (setValueAtKeyPathSync env k v)"
proof (cases "truthy k")
  case True
  have "blocking (\<lambda>w. case loadSettingsSync env w of
                         (Inl e, w1) \<Rightarrow> (Inl e, w1)
                       | (Inr obj, w1) \<Rightarrow>
                           (case kph_setValueAtKeyPath env obj k v of
                              Inl e \<Rightarrow> (Inl e, w1)
                            | Inr obj' \<Rightarrow> saveSettingsSync env obj' w1))"
    by (intro blocking_seq blocking_loadSettingsSync blocking_kph_then_save)
  with True show ?thesis
    by (simp add: setValueAtKeyPathSync_def [abs_def])
next
  case False
  then show ?thesis
    by (simp add: setValueAtKeyPathSync_def [abs_def] blocking_saveSettingsSync)
qed

lemma blocking_unsetValueAtKeyPathSync: "blocking (unsetValueAtKeyPathSync env k)"
  unfolding unsetValueAtKeyPathSync_def
  by (intro blocking_seq blocking_loadSettingsSync blocking_kph_then_save)

lemma blocking_required:
  assumes "\<And>args1. blocking (f args1)"
  shows "blocking (\<lambda>w. case required_key_path args of Inl e \<Rightarrow> (Inl e, w) | Inr args1 \<Rightarrow> f args1 w)"
  using assms by (cases "required_key_path args") (simp_all add: blocking_pure)

subsection \<open>Waiting, and the steps of loading and saving\<close>

lemma yield_idle: "interleave w = [] \<Longrightarrow> yield env w = w"
  by (simp add: yield_def)

lemma configure_interleave:
  "configure env a (w\<lparr>interleave := r\<rparr>) = (configure env a w)\<lparr>interleave := r\<rparr>"
  by (simp add: configure_def)

lemma fold_configure_interleave:
  "fold (configure env) cs (w\<lparr>interleave := r\<rparr>) = (fold (configure env) cs w)\<lparr>interleave := r\<rparr>"
  by (induction cs arbitrary: w) (simp_all add: configure_interleave)

lemma fold_configure_keeps:
  "disk (fold (configure env) cs w) = disk w \<and> trace (fold (configure env) cs w) = trace w"
  by (induction cs arbitrary: w) (simp_all add: configure_def)

lemma fold_configure_config_calls:
  "fold (configure env) cs w = config_calls env (map Configure cs) w"
  by (induction cs arbitrary: w) (simp_all add: config_calls_def)

lemma yield_keeps: "disk (yield env w) = disk w \<and> trace (yield env w) = trace w"
  by (simp add: yield_def fold_configure_keeps split: list.splits)

lemma yield_config:
  assumes "interleave w = cs # rest"
  shows "config (yield env w) = config (config_calls env (map Configure cs) w)"
proof -
  have "config (yield env w) = config (fold (configure env) cs w)"
    using assms by (simp add: yield_def fold_configure_interleave)
  then show ?thesis
    by (simp add: fold_configure_config_calls)
qed

lemma wait_simps:
  "disk (wait env ev w) = disk w"
  "trace (wait env ev w) = trace w @ [ev]"
  by (simp_all add: wait_def yield_keeps) (simp_all add: record_event_def)

lemma wait_idle: "interleave w = [] \<Longrightarrow> wait env ev w = record_event ev w"
  by (simp add: wait_def yield_idle record_event_def)

lemma wait_idle_interleave: "interleave w = [] \<Longrightarrow> interleave (wait env ev w) = []"
  by (simp add: wait_idle record_event_def)

lemma later_wait: "later env k (record_event ev w) = (Inr (), settle (k (wait env ev w)))"
  by (simp add: later_def wait_def)

lemma loadSettings_steps:
  assumes "getSettingsFilePath env (config w) = Inr p1"
    and "sys_stat env (disk w) p1 = None"
    and "w2 = wait env (Stat p1) w"
    and "getSettingsFilePath env (config w2) = Inr p2"
    and "w3 = wait env (ReadFile p2 (read_encoding (config w2))) w2"
  shows "loadSettings env fn w
       = (Inr (), settle
            (case loaded_document env (disk w) (config w2) (config w3) p2 of
               Inl e \<Rightarrow> fn [JError e] w3
             | Inr obj \<Rightarrow> try_catch (fn [JNull, obj]) (\<lambda>e. fn [JError e]) w3))"
proof -
  have load: "loadSettings env fn w = (Inr (), settle (readSettingsFile env fn w2))"
    using assms(1-3)
    by (simp add: loadSettings_def ensureSettingsFile_def fs_stat_def later_wait wait_simps
          err_arg_def arg_simps)
  have read: "readSettingsFile env fn w2
       = (Inr (), settle
            (case loaded_document env (disk w) (config w2) (config w3) p2 of
               Inl e \<Rightarrow> fn [JError e] w3
             | Inr obj \<Rightarrow> try_catch (fn [JNull, obj]) (\<lambda>e. fn [JError e]) w3))"
    using assms(3-5)
    by (auto simp add: readSettingsFile_def fs_readFile_def later_wait wait_simps arg_simps
          loaded_document_def read_encoding_def try_catch_def Let_def
        split: sum.splits)
  show ?thesis
    by (simp add: load read settle_simps)
qed

lemma saveSettings_steps:
  assumes "prepareSettingsData env (config w) obj = Inr data"
    and "getSettingsFilePath env (config w) = Inr p"
    and "getSettingsDirPath env (config w) = Inr dir"
    and "sys_stat env (disk w) dir = None"
    and "w2 = wait env (Stat dir) w"
    and "atomic = truthy (cfg_get (config w2) ''atomicSave'')"
    and "writer env atomic (disk w) p data = (r, d)"
  shows "saveSettings env obj fn w
       = (Inr (), settle (fn (write_done atomic r)
            ((wait env (write_event atomic p data) w2)\<lparr>disk := d\<rparr>)))"
  using assms
  by (auto simp add: saveSettings_def writeSettingsFile_def ensureSettingsDir_def fs_stat_def
        fs_writeFile_def writeFileAtomic_def later_wait wait_simps arg_simps err_arg_def
        writer_def write_event_def write_done_def settle_simps
      split: option.splits)


lemma loadSettingsSync_steps:
  assumes "getSettingsFilePath env (config w) = Inr p"
    and "sys_stat env (disk w) p = None"
  shows "loadSettingsSync env w = (stored_document env w p, after_read w p)"
  using assms
  by (auto simp add: loadSettingsSync_def ensureSettingsFileSync_def readSettingsFileSync_def
        try_catch_def fs_statSync_def fs_readFileSync_def record_event_def Let_def
        stored_document_def loaded_document_def read_encoding_def after_read_def
      split: sum.splits)









lemma setValueAtKeyPathSync_load_fails:
  assumes "getSettingsFilePath env (config w) = Inr p"
    and "sys_stat env (disk w) p = None"
    and "stored_document env w p = Inl e"
  shows "setValueAtKeyPathSync env k v w
       = (if truthy k then (Inl e, after_read w p) else saveSettingsSync env v w)"
    and "unsetValueAtKeyPathSync env k w = (Inl e, after_read w p)"
  using loadSettingsSync_steps [OF assms(1,2)] assms(3)
  by (simp_all add: setValueAtKeyPathSync_def unsetValueAtKeyPathSync_def)

lemma load_fails_steps:
  assumes "getSettingsFilePath env (config w) = Inr p1"
    and "sys_stat env (disk w) p1 = None"
    and "w2 = wait env (Stat p1) w"
    and "getSettingsFilePath env (config w2) = Inr p2"
    and "w3 = wait env (ReadFile p2 (read_encoding (config w2))) w2"
    and "loaded_document env (disk w) (config w2) (config w3) p2 = Inl e"
  shows "truthy k \<Longrightarrow> setValueAtKeyPath env k v (JFun cb) w
           = (Inr (), record_event (Invoke (JFun cb) [JError e]) w3)"
    and "unsetValueAtKeyPath env k (JFun cb) w
           = (Inr (), record_event (Invoke (JFun cb) [JError e]) w3)"
    and "loadSettings env fn w = (Inr (), settle (fn [JError e] w3))"
    and "disk w3 = disk w"
    and "trace w3 = trace w @ [Stat p1, ReadFile p2 (read_encoding (config w2))]"
  using assms(3,5,6)
  by (simp_all add: setValueAtKeyPath_def unsetValueAtKeyPath_def
        loadSettings_steps [OF assms(1-5)] arg_simps settle_simps wait_simps)

lemma setValueAtKeyPath_cycle_steps:
  assumes "truthy k"
    and "getSettingsFilePath env (config w) = Inr p1"
    and "sys_stat env (disk w) p1 = None"
    and "w2 = wait env (Stat p1) w"
    and "getSettingsFilePath env (config w2) = Inr p2"
    and "w3 = wait env (ReadFile p2 (read_encoding (config w2))) w2"
    and "loaded_document env (disk w) (config w2) (config w3) p2 = Inr obj"
    and "kph_setValueAtKeyPath env obj k v = Inr obj'"
    and "prepareSettingsData env (config w3) obj' = Inr data"
    and "getSettingsFilePath env (config w3) = Inr p3"
    and "getSettingsDirPath env (config w3) = Inr dir"
    and "sys_stat env (disk w) dir = None"
    and "w4 = wait env (Stat dir) w3"
    and "atomic = truthy (cfg_get (config w4) ''atomicSave'')"
    and "writer env atomic (disk w) p3 data = (r, d)"
  shows "setValueAtKeyPath env k v (JFun cb) w
       = (Inr (), record_event (Invoke (JFun cb) (write_done atomic r))
            ((wait env (write_event atomic p3 data) w4)\<lparr>disk := d\<rparr>))"
proof -
  have d3: "disk w3 = disk w"
    using assms(4,6) by (simp add: wait_simps)
  have save: "saveSettings env obj' (call (JFun cb)) w3
       = (Inr (), settle (call (JFun cb) (write_done atomic r)
            ((wait env (write_event atomic p3 data) w4)\<lparr>disk := d\<rparr>)))"
    by (rule saveSettings_steps [OF assms(9-11) _ assms(13,14)])
       (use assms(12,15) d3 in simp_all)
  show ?thesis
    using assms(1,7,8)
    by (simp add: setValueAtKeyPath_def loadSettings_steps [OF assms(2-6)] arg_simps save
          try_catch_def settle_simps)
qed

lemma unsetValueAtKeyPath_cycle_steps:
  assumes "getSettingsFilePath env (config w) = Inr p1"
    and "sys_stat env (disk w) p1 = None"
    and "w2 = wait env (Stat p1) w"
    and "getSettingsFilePath env (config w2) = Inr p2"
    and "w3 = wait env (ReadFile p2 (read_encoding (config w2))) w2"
    and "loaded_document env (disk w) (config w2) (config w3) p2 = Inr obj"
    and "kph_deleteValueAtKeyPath env obj k = Inr obj'"
    and "prepareSettingsData env (config w3) obj' = Inr data"
    and "getSettingsFilePath env (config w3) = Inr p3"
    and "getSettingsDirPath env (config w3) = Inr dir"
    and "sys_stat env (disk w) dir = None"
    and "w4 = wait env (Stat dir) w3"
    and "atomic = truthy (cfg_get (config w4) ''atomicSave'')"
    and "writer env atomic (disk w) p3 data = (r, d)"
  shows "unsetValueAtKeyPath env k (JFun cb) w
       = (Inr (), record_event (Invoke (JFun cb) (write_done atomic r))
            ((wait env (write_event atomic p3 data) w4)\<lparr>disk := d\<rparr>))"
proof -
  have d3: "disk w3 = disk w"
    using assms(3,5) by (simp add: wait_simps)
  have save: "saveSettings env obj' (call (JFun cb)) w3
       = (Inr (), settle (call (JFun cb) (write_done atomic r)
            ((wait env (write_event atomic p3 data) w4)\<lparr>disk := d\<rparr>)))"
    by (rule saveSettings_steps [OF assms(8-10) _ assms(12,13)])
       (use assms(11,14) d3 in simp_all)
  show ?thesis
    using assms(6,7)
    by (simp add: unsetValueAtKeyPath_def loadSettings_steps [OF assms(1-5)] arg_simps save
          try_catch_def settle_simps)
qed

lemmas step_defs = wait_def read_encoding_def loaded_document_def stored_document_def
  after_read_def writer_def write_event_def write_done_def

lemma config_calls_config:
  "config w = config w' \<Longrightarrow> config (config_calls env cs w) = config (config_calls env cs w')"
  unfolding config_calls_def
proof (induction cs arbitrary: w w')
  case Nil
  then show ?case by simp
next
  case (Cons c cs)
  have "config (run_config_call env c w) = config (run_config_call env c w')"
    using Cons.prems by (cases c) (simp_all add: reset_def configure_def)
  from Cons.IH [OF this] show ?case
    by simp
qed

lemma wait_script:
  assumes "interleave w = cs # rest"
  shows "config (wait env ev w) = config (config_calls env (map Configure cs) w)"
    and "interleave (wait env ev w) = rest"
proof -
  have i: "interleave (record_event ev w) = cs # rest"
    using assms by (simp add: record_event_def)
  have "config (record_event ev w) = config w"
    by (simp add: record_event_def)
  from config_calls_config [OF this]
  have "config (config_calls env (map Configure cs) (record_event ev w))
      = config (config_calls env (map Configure cs) w)" .
  with yield_config [OF i]
  show "config (wait env ev w) = config (config_calls env (map Configure cs) w)"
    by (simp add: wait_def)
  show "interleave (wait env ev w) = rest"
    using i by (simp add: wait_def yield_def fold_configure_interleave)
qed

lemma wait_idle_config: "interleave w = [] \<Longrightarrow> config (wait env ev w) = config w"
  by (simp add: wait_idle record_event_def)

subsection \<open>Runs in the example environment\<close>


lemma example_file_path:
  "getSettingsFilePath example_env (config (example_world fs)) = Inr (JStr ''/userData/settings.json'')"
  by (simp add: store_defs example_defs)


lemma example_config:
  "cfg_get (config (example_world fs)) ''atomicSave'' = JBool True"
  "read_encoding (config (example_world fs)) = JStr ''utf-8''"
  "interleave (example_world fs) = []"
  by (simp_all add: store_defs example_defs read_encoding_def)



lemma example_corrupt_loadSync:
  "loadSettingsSync example_env (example_world [(''/userData/settings.json'', ''not json'')])
     = (Inl (SyntaxError ''Unexpected token''),
        (example_world [(''/userData/settings.json'', ''not json'')])
          \<lparr>trace := [Stat (JStr ''/userData/settings.json''),
                     ReadFile (JStr ''/userData/settings.json'') (JStr ''utf-8'')]\<rparr>)"
  by (simp add: store_defs example_defs)

lemma example_corrupt_load:
  "loadSettings example_env fn (example_world [(''/userData/settings.json'', ''not json'')])
     = (Inr (), settle (fn [JError (SyntaxError ''Unexpected token'')]
        ((example_world [(''/userData/settings.json'', ''not json'')])
          \<lparr>trace := [Stat (JStr ''/userData/settings.json''),
                     ReadFile (JStr ''/userData/settings.json'') (JStr ''utf-8'')]\<rparr>)))"
  by (simp add: store_defs example_defs arg_simps)

lemma example_set_get_unset_has:
  \<open>fst (getSync example_env [JStr ''a'']
          (snd (setSync example_env [JStr ''a'', JNum 1] (example_world [])))) = Inr (JNum 1)
   \<and> fst (hasSync example_env [JStr ''a'']
          (snd (unsetSync example_env [JStr ''a'']
             (snd (setSync example_env [JStr ''a'', JNum 1] (example_world []))))))
       = Inr (JBool False)
   \<and> fst (hasSync example_env [JArr [JStr ''a'']]
          (example_world [(''/userData/settings.json'', ''{"a":1}'')])) = Inr (JBool True)\<close>
  by (simp add: store_defs example_defs arg_simps key_path_segments_def props_of_def)

section \<open>Key paths\<close>

text \<open>
  C2. \<open>isKeyPath\<close> holds of a value exactly when the value is a string, or a non-empty
  array whose last element is itself a key path. No other element is looked at for the
  answer: an array that ends in a string is a key path whatever comes before the string.
  The empty array is not a key path.
\<close>

theorem isKeyPath_checks_last_element:
  "(isKeyPath v \<longleftrightarrow>
      (\<exists>s. v = JStr s) \<or> (\<exists>xs. v = JArr xs \<and> xs \<noteq> [] \<and> isKeyPath (last xs)))
   \<and> isKeyPath (JArr (ys @ [JStr s']))
   \<and> \<not> isKeyPath (JArr [])"
  by (cases v) (simp_all add: isKeyPath_loop_last)

text \<open>
  C3. The claim wants an array that holds a number anywhere to be rejected. The array
  \<open>[42, 'foo']\<close> holds a number and \<open>isKeyPath\<close> accepts it.
\<close>

theorem isKeyPath_accepts_number_before_last:
  "isKeyPath (JArr [JNum 42, JStr ''foo'']) = True"
  by simp

text \<open>
  C4. \<open>flattenKeyPath\<close> returns a string as it is and turns an array into the join, with
  a dot, of its flattened elements. Flattening the one-element array of a flattened key
  path gives the flattened key path again, and the two nestings of three strings flatten
  to the same string, the three joined by dots: \<open>a.b.c\<close> for \<open>a\<close>, \<open>b\<close>, \<open>c\<close>.
\<close>

theorem flattenKeyPath_join_idempotent:
  "flattenKeyPath (JStr s) = JStr s
   \<and> flattenKeyPath (JArr xs) = JStr (join_elems ''.'' (map flattenKeyPath xs))
   \<and> (isKeyPath x \<longrightarrow> flattenKeyPath (JArr [flattenKeyPath x]) = flattenKeyPath x)
   \<and> flattenKeyPath (JArr [JStr a, JArr [JStr b, JStr c]]) = JStr (a @ ''.'' @ b @ ''.'' @ c)
   \<and> flattenKeyPath (JArr [JArr [JStr a, JStr b], JStr c]) = JStr (a @ ''.'' @ b @ ''.'' @ c)
   \<and> flattenKeyPath (JArr [JStr ''a'', JArr [JStr ''b'', JStr ''c'']]) = JStr ''a.b.c''
   \<and> flattenKeyPath (JArr [JArr [JStr ''a'', JStr ''b''], JStr ''c'']) = JStr ''a.b.c''"
  by (cases x) auto

theorem flattenKeyPath_join_idempotent_witness:
  "isKeyPath (JArr [JArr [JStr ''foo'', JStr ''bar''], JStr ''baz''])
   \<and> flattenKeyPath (JArr [flattenKeyPath (JArr [JArr [JStr ''foo'', JStr ''bar''], JStr ''baz''])])
       = JStr ''foo.bar.baz''"
  using flattenKeyPath_join_idempotent
          [of "[]" "[]" "JArr [JArr [JStr ''foo'', JStr ''bar''], JStr ''baz'']" "[]" "[]" "[]"]
  by simp

section \<open>Arguments that are not key paths\<close>

text \<open>
  C1. Called with a first argument that is not a key path, \<open>has\<close>, \<open>hasSync\<close>, \<open>unset\<close> and
  \<open>unsetSync\<close> throw the \<open>TypeError\<close> to their caller and leave the world as it was: no
  file-system call was started, the caller's function was not called, the disk is the
  same.
\<close>

theorem has_unset_reject_invalid_key_path:
  assumes "\<not> isKeyPath (arg 0 args)"
  shows "has env args w = (Inl (TypeError ''The given key path was not valid''), w)
       \<and> hasSync env args w = (Inl (TypeError ''The given key path was not valid''), w)
       \<and> unset env args w = (Inl (TypeError ''The given key path was not valid''), w)
       \<and> unsetSync env args w = (Inl (TypeError ''The given key path was not valid''), w)"
  using assms by (simp add: has_def hasSync_def unset_def unsetSync_def required_key_path_def)

theorem has_unset_reject_invalid_key_path_witness:
  "\<not> isKeyPath (arg 0 [JNum 42, JFun ''cb''])
   \<and> has example_env [JNum 42, JFun ''cb''] (example_world [])
       = (Inl (TypeError ''The given key path was not valid''), example_world [])
   \<and> unsetSync example_env [JNum 42, JFun ''cb''] (example_world [])
       = (Inl (TypeError ''The given key path was not valid''), example_world [])"
  using has_unset_reject_invalid_key_path
          [of "[JNum 42, JFun ''cb'']" example_env "example_world []"]
  by (simp add: arg_simps)

section \<open>No key path: the whole document\<close>




section \<open>The empty key path\<close>



section \<open>Encoding round trip\<close>

text \<open>
  C6. Take a document \<open>d\<close> and a configuration \<open>cfg\<close>. If \<open>JSON.parse\<close> gives \<open>d\<close> back from
  the text \<open>JSON.stringify\<close> makes of \<open>d\<close> at the configured indentation and, when a key is
  configured, deciphering gives that text back from its encryption under the configured
  algorithm and key, then \<open>prepareSettingsData\<close> succeeds on \<open>d\<close> and
  \<open>reconstructSettingsData\<close>, under the same \<open>cfg\<close>, returns \<open>d\<close> from its result.
\<close>

theorem prepare_reconstruct_round_trip:
  assumes "json_stringify env d
             (if truthy (cfg_get cfg ''prettify'') then cfg_get cfg ''numSpaces'' else JNum 0)
           = Inr text"
    and "json_parse env text = Inr d"
    and "truthy (cfg_get cfg ''encryptionKey'') \<longrightarrow>
           (case crypto_cipher env (cfg_get cfg ''encryptionAlgorithm'')
                   (cfg_get cfg ''encryptionKey'') text of
              Inl e \<Rightarrow> False
            | Inr buffer \<Rightarrow>
                crypto_decipher env (cfg_get cfg ''encryptionAlgorithm'')
                  (cfg_get cfg ''encryptionKey'') buffer = Inr text)"
  shows "case prepareSettingsData env cfg d of
           Inl e \<Rightarrow> False
         | Inr data \<Rightarrow> reconstructSettingsData env cfg data = Inr d"
  using assms
  by (auto simp add: prepareSettingsData_def reconstructSettingsData_def encryptData_def
        decryptData_def
      split: sum.splits)

theorem prepare_reconstruct_round_trip_witness:
  \<open>json_stringify example_env example_doc (JNum 0) = Inr (JStr ''{"a":1}'')
   \<and> json_parse example_env (JStr ''{"a":1}'') = Inr example_doc
   \<and> truthy (cfg_get (example_defaults(''encryptionKey'' \<mapsto> JStr ''secret'')) ''encryptionKey'')
   \<and> prepareSettingsData example_env (example_defaults(''encryptionKey'' \<mapsto> JStr ''secret''))
        example_doc = Inr (JBuffer ''}1:"a"{secret'')
   \<and> reconstructSettingsData example_env (example_defaults(''encryptionKey'' \<mapsto> JStr ''secret''))
        (JBuffer ''}1:"a"{secret'') = Inr example_doc\<close>
  using prepare_reconstruct_round_trip
          [of example_env example_doc "example_defaults(''encryptionKey'' \<mapsto> JStr ''secret'')"
              \<open>JStr ''{"a":1}''\<close>]
  by (simp add: example_env_def example_defaults_def example_json_stringify_def
        example_json_parse_def example_cipher_def example_decipher_def example_doc_def
        cfg_get_def prepareSettingsData_def encryptData_def)

section \<open>Configuration\<close>

text \<open>
  C7. \<open>configure(opts)\<close> replaces the configuration by the defaults, overridden by the
  configuration before the call, overridden by \<open>opts\<close>; so what an earlier \<open>configure\<close> set
  is still there after a later one. \<open>reset()\<close> replaces it by the defaults. Both hold
  after any sequence of \<open>configure\<close> and \<open>reset\<close> calls, and neither touches the disk or
  calls anything.
\<close>

theorem configure_merges_reset_restores:
  "config (configure env opts w) = defaults env ++ config w ++ own_props opts
   \<and> config (reset env w) = defaults env
   \<and> config (config_calls env (cs @ [Configure opts]) w)
        = defaults env ++ config (config_calls env cs w) ++ own_props opts
   \<and> config (config_calls env (cs @ [Reset]) w) = defaults env
   \<and> config (configure env opts2 (configure env opts1 w))
        = defaults env ++ config w ++ own_props opts1 ++ own_props opts2
   \<and> disk (config_calls env cs w) = disk w
   \<and> trace (config_calls env cs w) = trace w"
proof -
  have keep: "disk (config_calls env cs w) = disk w \<and> trace (config_calls env cs w) = trace w"
    for cs
  proof (induction cs arbitrary: w)
    case Nil
    then show ?case by (simp add: config_calls_def)
  next
    case (Cons c cs)
    then show ?case by (cases c) (simp_all add: config_calls_def reset_def configure_def)
  qed
  have twice: "config (configure env opts2 (configure env opts1 w))
        = defaults env ++ config w ++ own_props opts1 ++ own_props opts2"
    by (simp add: configure_def object_assign_simps map_add_absorb flip: map_add_assoc)
  show ?thesis
    using keep twice by (simp add: config_calls_def reset_def configure_def object_assign_simps)
qed

section \<open>A load that fails\<close>

text \<open>
  C8 as stated fails. When the settings file does not exist, loading creates it with the
  empty document before it reads. Here \<open>set('a', 2, cb)\<close> starts with no settings file;
  while the write of \<open>{}\<close> is pending the program calls
  \<open>configure({fileName: 'other.json'})\<close>; the read that follows asks for \<open>other.json\<close> and
  fails. \<open>cb\<close> receives the error, and the load has written \<open>settings.json\<close>: the disk is
  not as it was.
\<close>

theorem failed_load_leaves_created_file:
  "files (disk (example_world [])) = []
   \<and> fst (set_op example_env [JStr ''a'', JNum 2, JFun ''cb'']
        ((example_world [])
           \<lparr>interleave := [[], [], [JObj [(''fileName'', JStr ''other.json'')]]]\<rparr>))
     = Inr ()
   \<and> trace (snd (set_op example_env [JStr ''a'', JNum 2, JFun ''cb'']
        ((example_world [])
           \<lparr>interleave := [[], [], [JObj [(''fileName'', JStr ''other.json'')]]]\<rparr>)))
     = [Stat (JStr ''/userData/settings.json''),
        Stat (JStr ''/userData''),
        WriteFileAtomic (JStr ''/userData/settings.json'') (JStr ''{}''),
        ReadFile (JStr ''/userData/other.json'') (JStr ''utf-8''),
        Invoke (JFun ''cb'') [JError (SystemError ''ENOENT'')]]
   \<and> files (disk (snd (set_op example_env [JStr ''a'', JNum 2, JFun ''cb'']
        ((example_world [])
           \<lparr>interleave := [[], [], [JObj [(''fileName'', JStr ''other.json'')]]]\<rparr>))))
     = [(''/userData/settings.json'', ''{}'')]"
  by (simp add: store_defs example_defs arg_simps)

text \<open>
  C8, as amended. When loading fails with an error \<open>e\<close>, leaving the world \<open>w1\<close>, a \<open>set\<close> or
  \<open>unset\<close> with a key path ends there: \<open>setSync\<close> and \<open>unsetSync\<close> throw \<open>e\<close> and return
  \<open>w1\<close>; \<open>set\<close> and \<open>unset\<close> call the caller's function once, with \<open>e\<close>, and nothing else
  happens after \<open>w1\<close>. So \<open>key-path-helpers\<close> is not called and the save is not reached.
  For the asynchronous functions, loading fails with \<open>e\<close> in \<open>w1\<close> when \<open>loadSettings\<close>
  passes \<open>e\<close> to whatever callback it is given, in \<open>w1\<close>.

  When the settings file exists as the operation starts and reading it fails, or
  deciphering or parsing what was read fails, nothing is written at all. \<open>setSync\<close> and
  \<open>unsetSync\<close> end with the world they started in plus the two events of looking the file
  up and reading it. \<open>set\<close> and \<open>unset\<close>, whatever \<open>configure\<close> calls the program makes while
  they are pending, end with the lookup, the read of the file the configuration names
  after the lookup, and the one call of the caller's function. In both cases the disk is
  the one the operation started with.
\<close>

theorem failed_load_stops_set_and_unset:
  "(isKeyPath k \<and> truthy (flattenKeyPath k) \<and> loadSettingsSync env w = (Inl e, w1) \<longrightarrow>
      setSync env (k # v # rest) w = (Inl e, w1))
   \<and> (isKeyPath k \<and> loadSettingsSync env w = (Inl e, w1) \<longrightarrow>
      unsetSync env (k # rest) w = (Inl e, w1))
   \<and> (isKeyPath k \<and> truthy (flattenKeyPath k)
        \<and> (\<forall>fn. loadSettings env fn w = (Inr (), settle (fn [JError e] w1))) \<longrightarrow>
      set_op env (k # v # JFun cb # rest) w
        = (Inr (), record_event (Invoke (JFun cb) [JError e]) w1))
   \<and> (isKeyPath k
        \<and> (\<forall>fn. loadSettings env fn w = (Inr (), settle (fn [JError e] w1))) \<longrightarrow>
      unset env (k # JFun cb # rest) w
        = (Inr (), record_event (Invoke (JFun cb) [JError e]) w1))
   \<and> (isKeyPath k \<and> truthy (flattenKeyPath k)
        \<and> getSettingsFilePath env (config w) = Inr p \<and> sys_stat env (disk w) p = None
        \<and> stored_document env w p = Inl e \<longrightarrow>
      setSync env (k # v # rest) w = (Inl e, after_read w p))
   \<and> (isKeyPath k
        \<and> getSettingsFilePath env (config w) = Inr p \<and> sys_stat env (disk w) p = None
        \<and> stored_document env w p = Inl e \<longrightarrow>
      unsetSync env (k # rest) w = (Inl e, after_read w p))
   \<and> disk (after_read w p) = disk w
   \<and> trace (after_read w p) = trace w @ [Stat p, ReadFile p (read_encoding (config w))]
   \<and> (isKeyPath k \<and> truthy (flattenKeyPath k)
        \<and> getSettingsFilePath env (config w) = Inr p \<and> sys_stat env (disk w) p = None
        \<and> w2 = wait env (Stat p) w
        \<and> getSettingsFilePath env (config w2) = Inr p2
        \<and> w3 = wait env (ReadFile p2 (read_encoding (config w2))) w2
        \<and> loaded_document env (disk w) (config w2) (config w3) p2 = Inl e \<longrightarrow>
      set_op env (k # v # JFun cb # rest) w
        = (Inr (), record_event (Invoke (JFun cb) [JError e]) w3))
   \<and> (isKeyPath k
        \<and> getSettingsFilePath env (config w) = Inr p \<and> sys_stat env (disk w) p = None
        \<and> w2 = wait env (Stat p) w
        \<and> getSettingsFilePath env (config w2) = Inr p2
        \<and> w3 = wait env (ReadFile p2 (read_encoding (config w2))) w2
        \<and> loaded_document env (disk w) (config w2) (config w3) p2 = Inl e \<longrightarrow>
      unset env (k # JFun cb # rest) w
        = (Inr (), record_event (Invoke (JFun cb) [JError e]) w3))
   \<and> (w2 = wait env (Stat p) w
        \<and> w3 = wait env (ReadFile p2 (read_encoding (config w2))) w2 \<longrightarrow>
      disk (record_event (Invoke (JFun cb) [JError e]) w3) = disk w
      \<and> trace (record_event (Invoke (JFun cb) [JError e]) w3)
          = trace w @ [Stat p, ReadFile p2 (read_encoding (config w2)),
                       Invoke (JFun cb) [JError e]])"
proof -
  have ss: "setSync env (k # v # rest) w = setValueAtKeyPathSync env (flattenKeyPath k) v w"
    and sa: "set_op env (k # v # JFun cb # rest) w
        = setValueAtKeyPath env (flattenKeyPath k) v (JFun cb) w"
    and us: "unsetSync env (k # rest) w = unsetValueAtKeyPathSync env (flattenKeyPath k) w"
    and ua: "unset env (k # JFun cb # rest) w
        = unsetValueAtKeyPath env (flattenKeyPath k) (JFun cb) w"
    if "isKeyPath k"
    using that
    by (simp_all add: setSync_def set_op_def unsetSync_def unset_def optional_key_path_def
          required_key_path_def arg_simps)
  have sync_set: "setSync env (k # v # rest) w = (Inl e, w1)"
    if "isKeyPath k" "truthy (flattenKeyPath k)" "loadSettingsSync env w = (Inl e, w1)"
    using that by (simp add: ss setValueAtKeyPathSync_def)
  have sync_unset: "unsetSync env (k # rest) w = (Inl e, w1)"
    if "isKeyPath k" "loadSettingsSync env w = (Inl e, w1)"
    using that by (simp add: us unsetValueAtKeyPathSync_def)
  have async_set: "set_op env (k # v # JFun cb # rest) w
        = (Inr (), record_event (Invoke (JFun cb) [JError e]) w1)"
    if "isKeyPath k" "truthy (flattenKeyPath k)"
      "\<forall>fn. loadSettings env fn w = (Inr (), settle (fn [JError e] w1))"
    using that by (simp add: sa setValueAtKeyPath_def arg_simps settle_simps)
  have async_unset: "unset env (k # JFun cb # rest) w
        = (Inr (), record_event (Invoke (JFun cb) [JError e]) w1)"
    if "isKeyPath k"
      "\<forall>fn. loadSettings env fn w = (Inr (), settle (fn [JError e] w1))"
    using that by (simp add: ua unsetValueAtKeyPath_def arg_simps settle_simps)
  have there_set: "setSync env (k # v # rest) w = (Inl e, after_read w p)"
    if "isKeyPath k" "truthy (flattenKeyPath k)"
      "getSettingsFilePath env (config w) = Inr p" "sys_stat env (disk w) p = None"
      "stored_document env w p = Inl e"
    using setValueAtKeyPathSync_load_fails(1) [OF that(3-5)] that(1,2) by (simp add: ss)
  have there_unset: "unsetSync env (k # rest) w = (Inl e, after_read w p)"
    if "isKeyPath k"
      "getSettingsFilePath env (config w) = Inr p" "sys_stat env (disk w) p = None"
      "stored_document env w p = Inl e"
    using setValueAtKeyPathSync_load_fails(2) [OF that(2-4)] that(1) by (simp add: us)
  have sync_world: "disk (after_read w p) = disk w"
    "trace (after_read w p) = trace w @ [Stat p, ReadFile p (read_encoding (config w))]"
    by (simp_all add: after_read_def)
  have staged_set: "set_op env (k # v # JFun cb # rest) w
        = (Inr (), record_event (Invoke (JFun cb) [JError e]) w3)"
    if "isKeyPath k" "truthy (flattenKeyPath k)"
      "getSettingsFilePath env (config w) = Inr p" "sys_stat env (disk w) p = None"
      "w2 = wait env (Stat p) w" "getSettingsFilePath env (config w2) = Inr p2"
      "w3 = wait env (ReadFile p2 (read_encoding (config w2))) w2"
      "loaded_document env (disk w) (config w2) (config w3) p2 = Inl e"
    unfolding sa [OF that(1)] by (rule load_fails_steps(1) [OF that(3-8) that(2)])
  have staged_unset: "unset env (k # JFun cb # rest) w
        = (Inr (), record_event (Invoke (JFun cb) [JError e]) w3)"
    if "isKeyPath k"
      "getSettingsFilePath env (config w) = Inr p" "sys_stat env (disk w) p = None"
      "w2 = wait env (Stat p) w" "getSettingsFilePath env (config w2) = Inr p2"
      "w3 = wait env (ReadFile p2 (read_encoding (config w2))) w2"
      "loaded_document env (disk w) (config w2) (config w3) p2 = Inl e"
    unfolding ua [OF that(1)] by (rule load_fails_steps(2) [OF that(2-7)])
  have staged_world: "disk (record_event (Invoke (JFun cb) [JError e]) w3) = disk w
      \<and> trace (record_event (Invoke (JFun cb) [JError e]) w3)
          = trace w @ [Stat p, ReadFile p2 (read_encoding (config w2)),
                       Invoke (JFun cb) [JError e]]"
    if "w2 = wait env (Stat p) w"
      "w3 = wait env (ReadFile p2 (read_encoding (config w2))) w2"
    using that by (simp add: record_event_def wait_simps)
  show ?thesis
    using sync_set sync_unset async_set async_unset there_set there_unset sync_world
      staged_set staged_unset staged_world
    by blast
qed

theorem failed_load_stops_set_and_unset_witness:
  "setSync example_env [JStr ''a'', JNum 2]
         (example_world [(''/userData/settings.json'', ''not json'')])
       = (Inl (SyntaxError ''Unexpected token''),
          (example_world [(''/userData/settings.json'', ''not json'')])
            \<lparr>trace := [Stat (JStr ''/userData/settings.json''),
                       ReadFile (JStr ''/userData/settings.json'') (JStr ''utf-8'')]\<rparr>)
   \<and> unsetSync example_env [JStr ''a'']
         (example_world [(''/userData/settings.json'', ''not json'')])
       = (Inl (SyntaxError ''Unexpected token''),
          (example_world [(''/userData/settings.json'', ''not json'')])
            \<lparr>trace := [Stat (JStr ''/userData/settings.json''),
                       ReadFile (JStr ''/userData/settings.json'') (JStr ''utf-8'')]\<rparr>)
   \<and> set_op example_env [JStr ''a'', JNum 2, JFun ''cb'']
         (example_world [(''/userData/settings.json'', ''not json'')])
       = (Inr (),
          (example_world [(''/userData/settings.json'', ''not json'')])
            \<lparr>trace := [Stat (JStr ''/userData/settings.json''),
                       ReadFile (JStr ''/userData/settings.json'') (JStr ''utf-8''),
                       Invoke (JFun ''cb'') [JError (SyntaxError ''Unexpected token'')]]\<rparr>)
   \<and> unset example_env [JStr ''a'', JFun ''cb'']
         (example_world [(''/userData/settings.json'', ''not json'')])
       = (Inr (),
          (example_world [(''/userData/settings.json'', ''not json'')])
            \<lparr>trace := [Stat (JStr ''/userData/settings.json''),
                       ReadFile (JStr ''/userData/settings.json'') (JStr ''utf-8''),
                       Invoke (JFun ''cb'') [JError (SyntaxError ''Unexpected token'')]]\<rparr>)
   \<and> trace (snd (set_op example_env [JStr ''a'', JNum 2, JFun ''cb'']
        ((example_world [(''/userData/settings.json'', ''{}'')])
           \<lparr>interleave := [[JObj [(''fileName'', JStr ''other.json'')]]]\<rparr>)))
       = [Stat (JStr ''/userData/settings.json''),
          ReadFile (JStr ''/userData/other.json'') (JStr ''utf-8''),
          Invoke (JFun ''cb'') [JError (SystemError ''ENOENT'')]]
   \<and> disk (snd (set_op example_env [JStr ''a'', JNum 2, JFun ''cb'']
        ((example_world [(''/userData/settings.json'', ''{}'')])
           \<lparr>interleave := [[JObj [(''fileName'', JStr ''other.json'')]]]\<rparr>)))
       = \<lparr>dirs = [''/userData''], files = [(''/userData/settings.json'', ''{}'')]\<rparr>"
proof -
  let ?w = "example_world [(''/userData/settings.json'', ''not json'')] :: memfs world"
  let ?p = "JStr ''/userData/settings.json''"
  let ?w1 = "?w\<lparr>trace := [Stat ?p, ReadFile ?p (JStr ''utf-8'')]\<rparr>"
  let ?w2 = "wait example_env (Stat ?p) ?w"
  let ?w3 = "wait example_env (ReadFile ?p (read_encoding (config ?w2))) ?w2"
  let ?e = "SyntaxError ''Unexpected token''"
  note stop = failed_load_stops_set_and_unset
      [where k = "JStr ''a''" and env = example_env and w = ?w and e = ?e and ?w1.0 = ?w1
         and v = "JNum 2" and rest = "[]" and cb = "''cb''" and p = ?p and ?w2.0 = ?w2
         and ?p2.0 = ?p and ?w3.0 = ?w3]
  have kp: "isKeyPath (JStr ''a'')" "truthy (flattenKeyPath (JStr ''a''))"
    by simp_all
  have path: "getSettingsFilePath example_env (config ?w) = Inr ?p"
    by (rule example_file_path)
  have path2: "getSettingsFilePath example_env (config ?w2) = Inr ?p"
    using example_file_path [of "[(''/userData/settings.json'', ''not json'')]"]
    by (simp add: wait_idle example_config record_event_def)
  have stat: "sys_stat example_env (disk ?w) ?p = None"
    by (simp add: example_defs)
  have enc: "read_encoding (config ?w2) = JStr ''utf-8''"
    by (simp add: wait_idle example_config record_event_def)
  have doc: "stored_document example_env ?w ?p = Inl ?e"
    "loaded_document example_env (disk ?w) (config ?w2) (config ?w3) ?p = Inl ?e"
    by (simp_all add: wait_idle record_event_def stored_document_def loaded_document_def
          example_config)
       (simp_all add: store_defs example_defs)
  have after: "after_read ?w ?p = ?w1"
    by (simp add: after_read_def example_config) (simp add: example_world_def)
  have w3: "?w3 = ?w1"
    by (simp add: wait_idle example_config record_event_def) (simp add: example_world_def)
  have sync: "loadSettingsSync example_env ?w = (Inl ?e, ?w1)"
    by (rule example_corrupt_loadSync)
  have async: "\<forall>fn. loadSettings example_env fn ?w = (Inr (), settle (fn [JError ?e] ?w1))"
    by (simp add: example_corrupt_load)
  from stop kp sync
  have a: "setSync example_env [JStr ''a'', JNum 2] ?w = (Inl ?e, ?w1)"
    "unsetSync example_env [JStr ''a''] ?w = (Inl ?e, ?w1)"
    by blast+
  from stop kp path stat doc(1)
  have a': "setSync example_env [JStr ''a'', JNum 2] ?w = (Inl ?e, after_read ?w ?p)"
    "unsetSync example_env [JStr ''a''] ?w = (Inl ?e, after_read ?w ?p)"
    by blast+
  from stop kp async
  have b: "set_op example_env [JStr ''a'', JNum 2, JFun ''cb''] ?w
        = (Inr (), record_event (Invoke (JFun ''cb'') [JError ?e]) ?w1)"
    "unset example_env [JStr ''a'', JFun ''cb''] ?w
        = (Inr (), record_event (Invoke (JFun ''cb'') [JError ?e]) ?w1)"
    by blast+
  from stop kp path stat path2 doc(2)
  have b': "set_op example_env [JStr ''a'', JNum 2, JFun ''cb''] ?w
        = (Inr (), record_event (Invoke (JFun ''cb'') [JError ?e]) ?w3)"
    "unset example_env [JStr ''a'', JFun ''cb''] ?w
        = (Inr (), record_event (Invoke (JFun ''cb'') [JError ?e]) ?w3)"
    by blast+
  have shown: "record_event (Invoke (JFun ''cb'') [JError ?e]) ?w1
      = ?w\<lparr>trace := [Stat ?p, ReadFile ?p (JStr ''utf-8''), Invoke (JFun ''cb'') [JError ?e]]\<rparr>"
    by (simp add: record_event_def example_world_def)
  let ?s = "(example_world [(''/userData/settings.json'', ''{}'')])
           \<lparr>interleave := [[JObj [(''fileName'', JStr ''other.json'')]]]\<rparr> :: memfs world"
  let ?q = "JStr ''/userData/other.json''"
  let ?s2 = "wait example_env (Stat ?p) ?s"
  let ?s3 = "wait example_env (ReadFile ?q (read_encoding (config ?s2))) ?s2"
  let ?n = "SystemError ''ENOENT''"
  note moved = failed_load_stops_set_and_unset
      [where k = "JStr ''a''" and env = example_env and w = ?s and e = ?n
         and v = "JNum 2" and rest = "[]" and cb = "''cb''" and p = ?p and ?w2.0 = ?s2
         and ?p2.0 = ?q and ?w3.0 = ?s3]
  have s_path: "getSettingsFilePath example_env (config ?s) = Inr ?p"
    by (simp add: store_defs example_defs)
  have s_stat: "sys_stat example_env (disk ?s) ?p = None"
    by (simp add: example_defs)
  have s_path2: "getSettingsFilePath example_env (config ?s2) = Inr ?q"
    by (simp add: store_defs example_defs step_defs)
  have s_enc: "read_encoding (config ?s2) = JStr ''utf-8''"
    by (simp add: store_defs example_defs step_defs)
  have s_doc: "loaded_document example_env (disk ?s) (config ?s2) (config ?s3) ?q = Inl ?n"
    by (simp add: store_defs example_defs step_defs)
  from moved kp s_path s_stat s_path2 s_doc
  have c: "set_op example_env [JStr ''a'', JNum 2, JFun ''cb''] ?s
        = (Inr (), record_event (Invoke (JFun ''cb'') [JError ?n]) ?s3)"
    by blast
  have s_world: "disk ?s3 = \<lparr>dirs = [''/userData''], files = [(''/userData/settings.json'', ''{}'')]\<rparr>"
    "trace ?s3 = [Stat ?p, ReadFile ?q (JStr ''utf-8'')]"
    unfolding s_enc by (simp_all add: wait_simps example_world_def)
  have c': "disk (snd (set_op example_env [JStr ''a'', JNum 2, JFun ''cb''] ?s))
        = \<lparr>dirs = [''/userData''], files = [(''/userData/settings.json'', ''{}'')]\<rparr>"
    "trace (snd (set_op example_env [JStr ''a'', JNum 2, JFun ''cb''] ?s))
        = [Stat ?p, ReadFile ?q (JStr ''utf-8''), Invoke (JFun ''cb'') [JError ?n]]"
    unfolding c by (simp_all add: record_event_def s_world)
  have f1: "setSync example_env [JStr ''a'', JNum 2] ?w = (Inl ?e, ?w1)"
    using a'(1) by (simp only: after)
  have f3: "set_op example_env [JStr ''a'', JNum 2, JFun ''cb''] ?w
        = (Inr (), ?w\<lparr>trace := [Stat ?p, ReadFile ?p (JStr ''utf-8''),
                                  Invoke (JFun ''cb'') [JError ?e]]\<rparr>)"
    using b'(1) by (simp only: w3 shown)
  have f4: "unset example_env [JStr ''a'', JFun ''cb''] ?w
        = (Inr (), ?w\<lparr>trace := [Stat ?p, ReadFile ?p (JStr ''utf-8''),
                                  Invoke (JFun ''cb'') [JError ?e]]\<rparr>)"
    using b(2) by (simp only: shown)
  show ?thesis
    by (intro conjI) (rule f1 a(2) f3 f4 c'(2) c'(1))+
qed

section \<open>Configuring while an operation is pending\<close>

text \<open>
  C9 as stated fails. \<open>get(cb)\<close> looks up \<open>settings.json\<close>, which exists and holds \<open>{"a":1}\<close>;
  while it waits for the answer the program calls \<open>configure({fileName: 'other.json'})\<close>;
  the read that follows asks for \<open>other.json\<close> and \<open>cb\<close> receives \<open>ENOENT\<close>. Without the
  \<open>configure\<close> call \<open>cb\<close> receives the document.
\<close>

theorem pending_get_observes_configure:
  \<open>trace (snd (get example_env [JFun ''cb'']
             ((example_world [(''/userData/settings.json'', ''{"a":1}'')])
                \<lparr>interleave := [[JObj [(''fileName'', JStr ''other.json'')]]]\<rparr>)))
     = [Stat (JStr ''/userData/settings.json''),
        ReadFile (JStr ''/userData/other.json'') (JStr ''utf-8''),
        Invoke (JFun ''cb'') [JError (SystemError ''ENOENT'')]]
   \<and> trace (snd (get example_env [JFun ''cb'']
             (example_world [(''/userData/settings.json'', ''{"a":1}'')])))
     = [Stat (JStr ''/userData/settings.json''),
        ReadFile (JStr ''/userData/settings.json'') (JStr ''utf-8''),
        Invoke (JFun ''cb'') [JNull, example_doc]]\<close>
  by (simp add: store_defs example_defs arg_simps)

text \<open>
  C9, as amended. No operation keeps a copy of the configuration: each step reads the
  module variable when it runs.
  \<^item> \<open>getSync\<close>, \<open>hasSync\<close>, \<open>setSync\<close> and \<open>unsetSync\<close> never wait: they run the same
    whatever \<open>configure\<close> calls the program has scheduled and end with the configuration
    they started with.
  \<^item> Each wait of an asynchronous operation lets the \<open>configure\<close> calls the program makes
    meanwhile take effect, and changes nothing else but the record of calls.
  \<^item> \<open>loadSettings\<close>, for an existing settings file: the path it looks up is that of the
    configuration at the call; the path it reads and the encoding are those of the
    configuration after the lookup; the data is decoded under the configuration after
    the read.
  \<^item> \<open>saveSettings\<close>, for an existing settings directory: the document is encoded, and the
    file path and the directory are taken, under the configuration at the call;
    \<open>config.atomicSave\<close> is read after the lookup of the directory. So a \<open>configure\<close> call
    made during that lookup can change how the file is written, not where.
  \<^item> \<open>set\<close> with a key path and \<open>unset\<close> load, then save: the save starts after the two
    waits of the load, with the configuration of that moment.
\<close>

theorem configuration_is_read_step_by_step:
  "blocking (getSync env args) \<and> blocking (hasSync env args)
   \<and> blocking (setSync env args) \<and> blocking (unsetSync env args)
   \<and> config (wait env ev w)
       = (case interleave w of
            [] \<Rightarrow> config w
          | cs # pending \<Rightarrow> config (config_calls env (map Configure cs) w))
   \<and> interleave (wait env ev w) = tl (interleave w)
   \<and> disk (wait env ev w) = disk w
   \<and> trace (wait env ev w) = trace w @ [ev]
   \<and> (getSettingsFilePath env (config w) = Inr p1
        \<and> sys_stat env (disk w) p1 = None
        \<and> w2 = wait env (Stat p1) w
        \<and> getSettingsFilePath env (config w2) = Inr p2
        \<and> w3 = wait env (ReadFile p2 (read_encoding (config w2))) w2 \<longrightarrow>
        loadSettings env fn w
          = (Inr (), settle
               (case loaded_document env (disk w) (config w2) (config w3) p2 of
                  Inl e \<Rightarrow> fn [JError e] w3
                | Inr obj \<Rightarrow> try_catch (fn [JNull, obj]) (\<lambda>e. fn [JError e]) w3)))
   \<and> (prepareSettingsData env (config s) doc = Inr sdata
        \<and> getSettingsFilePath env (config s) = Inr sp
        \<and> getSettingsDirPath env (config s) = Inr sdir
        \<and> sys_stat env (disk s) sdir = None
        \<and> s2 = wait env (Stat sdir) s
        \<and> satomic = truthy (cfg_get (config s2) ''atomicSave'')
        \<and> writer env satomic (disk s) sp sdata = (sr, sd) \<longrightarrow>
        saveSettings env doc sfn s
          = (Inr (), settle (sfn (write_done satomic sr)
               ((wait env (write_event satomic sp sdata) s2)\<lparr>disk := sd\<rparr>))))
   \<and> (isKeyPath k \<and> truthy (flattenKeyPath k)
        \<and> getSettingsFilePath env (config w) = Inr p1
        \<and> sys_stat env (disk w) p1 = None
        \<and> w2 = wait env (Stat p1) w
        \<and> getSettingsFilePath env (config w2) = Inr p2
        \<and> w3 = wait env (ReadFile p2 (read_encoding (config w2))) w2
        \<and> loaded_document env (disk w) (config w2) (config w3) p2 = Inr obj
        \<and> kph_setValueAtKeyPath env obj (flattenKeyPath k) v = Inr obj'
        \<and> prepareSettingsData env (config w3) obj' = Inr data
        \<and> getSettingsFilePath env (config w3) = Inr p3
        \<and> getSettingsDirPath env (config w3) = Inr dir
        \<and> sys_stat env (disk w) dir = None
        \<and> w4 = wait env (Stat dir) w3
        \<and> atomic = truthy (cfg_get (config w4) ''atomicSave'')
        \<and> writer env atomic (disk w) p3 data = (r, d) \<longrightarrow>
        set_op env (k # v # JFun cb # rest) w
          = (Inr (), record_event (Invoke (JFun cb) (write_done atomic r))
               ((wait env (write_event atomic p3 data) w4)\<lparr>disk := d\<rparr>)))
   \<and> (isKeyPath k
        \<and> getSettingsFilePath env (config w) = Inr p1
        \<and> sys_stat env (disk w) p1 = None
        \<and> w2 = wait env (Stat p1) w
        \<and> getSettingsFilePath env (config w2) = Inr p2
        \<and> w3 = wait env (ReadFile p2 (read_encoding (config w2))) w2
        \<and> loaded_document env (disk w) (config w2) (config w3) p2 = Inr obj
        \<and> kph_deleteValueAtKeyPath env obj (flattenKeyPath k) = Inr uobj
        \<and> prepareSettingsData env (config w3) uobj = Inr udata
        \<and> getSettingsFilePath env (config w3) = Inr p3
        \<and> getSettingsDirPath env (config w3) = Inr dir
        \<and> sys_stat env (disk w) dir = None
        \<and> w4 = wait env (Stat dir) w3
        \<and> atomic = truthy (cfg_get (config w4) ''atomicSave'')
        \<and> writer env atomic (disk w) p3 udata = (ur, ud) \<longrightarrow>
        unset env (k # JFun cb # rest) w
          = (Inr (), record_event (Invoke (JFun cb) (write_done atomic ur))
               ((wait env (write_event atomic p3 udata) w4)\<lparr>disk := ud\<rparr>)))"
proof -
  have b: "blocking (getSync env args)" "blocking (hasSync env args)"
    "blocking (setSync env args)" "blocking (unsetSync env args)"
  proof -
    show "blocking (hasSync env args)"
      unfolding hasSync_def by (intro blocking_required blocking_hasKeyPathSync)
    show "blocking (unsetSync env args)"
      unfolding unsetSync_def by (intro blocking_required blocking_unsetValueAtKeyPathSync)
    show "blocking (getSync env args)" "blocking (setSync env args)"
      by (simp_all add: getSync_def setSync_def Let_def blocking_getValueAtKeyPathSync
            blocking_setValueAtKeyPathSync)
  qed
  have waiting: "config (wait env ev w)
       = (case interleave w of
            [] \<Rightarrow> config w
          | cs # pending \<Rightarrow> config (config_calls env (map Configure cs) w))"
    "interleave (wait env ev w) = tl (interleave w)"
    "disk (wait env ev w) = disk w"
    "trace (wait env ev w) = trace w @ [ev]"
  proof -
    show "config (wait env ev w)
       = (case interleave w of
            [] \<Rightarrow> config w
          | cs # pending \<Rightarrow> config (config_calls env (map Configure cs) w))"
      by (cases "interleave w") (simp_all add: wait_idle_config wait_script)
    show "interleave (wait env ev w) = tl (interleave w)"
      by (cases "interleave w") (simp_all add: wait_idle_interleave wait_script)
    show "disk (wait env ev w) = disk w" "trace (wait env ev w) = trace w @ [ev]"
      by (simp_all add: wait_simps)
  qed
  have sa: "set_op env (k # v # JFun cb # rest) w
        = setValueAtKeyPath env (flattenKeyPath k) v (JFun cb) w"
    and ua: "unset env (k # JFun cb # rest) w
        = unsetValueAtKeyPath env (flattenKeyPath k) (JFun cb) w"
    if "isKeyPath k"
    using that
    by (simp_all add: set_op_def unset_def optional_key_path_def required_key_path_def
          arg_simps)
  have load: "loadSettings env fn w
          = (Inr (), settle
               (case loaded_document env (disk w) (config w2) (config w3) p2 of
                  Inl e \<Rightarrow> fn [JError e] w3
                | Inr obj \<Rightarrow> try_catch (fn [JNull, obj]) (\<lambda>e. fn [JError e]) w3))"
    if "getSettingsFilePath env (config w) = Inr p1" "sys_stat env (disk w) p1 = None"
      "w2 = wait env (Stat p1) w" "getSettingsFilePath env (config w2) = Inr p2"
      "w3 = wait env (ReadFile p2 (read_encoding (config w2))) w2"
    by (rule loadSettings_steps [OF that])
  have save: "saveSettings env doc sfn s
          = (Inr (), settle (sfn (write_done satomic sr)
               ((wait env (write_event satomic sp sdata) s2)\<lparr>disk := sd\<rparr>)))"
    if "prepareSettingsData env (config s) doc = Inr sdata"
      "getSettingsFilePath env (config s) = Inr sp"
      "getSettingsDirPath env (config s) = Inr sdir"
      "sys_stat env (disk s) sdir = None"
      "s2 = wait env (Stat sdir) s"
      "satomic = truthy (cfg_get (config s2) ''atomicSave'')"
      "writer env satomic (disk s) sp sdata = (sr, sd)"
    by (rule saveSettings_steps [OF that])
  have cycle_set: "set_op env (k # v # JFun cb # rest) w
          = (Inr (), record_event (Invoke (JFun cb) (write_done atomic r))
               ((wait env (write_event atomic p3 data) w4)\<lparr>disk := d\<rparr>))"
    if "isKeyPath k" "truthy (flattenKeyPath k)"
      "getSettingsFilePath env (config w) = Inr p1"
      "sys_stat env (disk w) p1 = None"
      "w2 = wait env (Stat p1) w"
      "getSettingsFilePath env (config w2) = Inr p2"
      "w3 = wait env (ReadFile p2 (read_encoding (config w2))) w2"
      "loaded_document env (disk w) (config w2) (config w3) p2 = Inr obj"
      "kph_setValueAtKeyPath env obj (flattenKeyPath k) v = Inr obj'"
      "prepareSettingsData env (config w3) obj' = Inr data"
      "getSettingsFilePath env (config w3) = Inr p3"
      "getSettingsDirPath env (config w3) = Inr dir"
      "sys_stat env (disk w) dir = None"
      "w4 = wait env (Stat dir) w3"
      "atomic = truthy (cfg_get (config w4) ''atomicSave'')"
      "writer env atomic (disk w) p3 data = (r, d)"
    unfolding sa [OF that(1)] by (rule setValueAtKeyPath_cycle_steps [OF that(2-)])
  have cycle_unset: "unset env (k # JFun cb # rest) w
          = (Inr (), record_event (Invoke (JFun cb) (write_done atomic ur))
               ((wait env (write_event atomic p3 udata) w4)\<lparr>disk := ud\<rparr>))"
    if "isKeyPath k"
      "getSettingsFilePath env (config w) = Inr p1"
      "sys_stat env (disk w) p1 = None"
      "w2 = wait env (Stat p1) w"
      "getSettingsFilePath env (config w2) = Inr p2"
      "w3 = wait env (ReadFile p2 (read_encoding (config w2))) w2"
      "loaded_document env (disk w) (config w2) (config w3) p2 = Inr obj"
      "kph_deleteValueAtKeyPath env obj (flattenKeyPath k) = Inr uobj"
      "prepareSettingsData env (config w3) uobj = Inr udata"
      "getSettingsFilePath env (config w3) = Inr p3"
      "getSettingsDirPath env (config w3) = Inr dir"
      "sys_stat env (disk w) dir = None"
      "w4 = wait env (Stat dir) w3"
      "atomic = truthy (cfg_get (config w4) ''atomicSave'')"
      "writer env atomic (disk w) p3 udata = (ur, ud)"
    unfolding ua [OF that(1)] by (rule unsetValueAtKeyPath_cycle_steps [OF that(2-)])
  show ?thesis
    by (intro conjI impI; (elim conjE)?;
        (rule b waiting load save cycle_set cycle_unset; assumption))
qed

theorem configuration_is_read_step_by_step_witness:
  \<open>trace (snd (set_op example_env [JStr ''a'', JNum 1, JFun ''cb'']
       ((example_world [(''/userData/settings.json'', ''{}'')])
          \<lparr>interleave := [[], [JObj [(''fileName'', JStr ''other.json'')]],
                           [JObj [(''atomicSave'', JBool False)]], []]\<rparr>)))
     = [Stat (JStr ''/userData/settings.json''),
        ReadFile (JStr ''/userData/settings.json'') (JStr ''utf-8''),
        Stat (JStr ''/userData''),
        WriteFile (JStr ''/userData/other.json'') (JStr ''{"a":1}''),
        Invoke (JFun ''cb'') [JNull]]
   \<and> disk (snd (set_op example_env [JStr ''a'', JNum 1, JFun ''cb'']
       ((example_world [(''/userData/settings.json'', ''{}'')])
          \<lparr>interleave := [[], [JObj [(''fileName'', JStr ''other.json'')]],
                           [JObj [(''atomicSave'', JBool False)]], []]\<rparr>)))
     = \<lparr>dirs = [''/userData''],
        files = [(''/userData/other.json'', ''{"a":1}''), (''/userData/settings.json'', ''{}'')]\<rparr>
   \<and> trace (snd (unset example_env [JStr ''a'', JFun ''cb'']
       ((example_world [(''/userData/settings.json'', ''{}'')])
          \<lparr>interleave := [[], [JObj [(''fileName'', JStr ''other.json'')]],
                           [JObj [(''atomicSave'', JBool False)]], []]\<rparr>)))
     = [Stat (JStr ''/userData/settings.json''),
        ReadFile (JStr ''/userData/settings.json'') (JStr ''utf-8''),
        Stat (JStr ''/userData''),
        WriteFile (JStr ''/userData/other.json'') (JStr ''{}''),
        Invoke (JFun ''cb'') [JNull]]
   \<and> trace (snd (loadSettings example_env (deliver (JFun ''cb''))
       ((example_world [(''/userData/settings.json'', ''{}'')])
          \<lparr>interleave := [[], [JObj [(''fileName'', JStr ''other.json'')]],
                           [JObj [(''atomicSave'', JBool False)]], []]\<rparr>)))
     = [Stat (JStr ''/userData/settings.json''),
        ReadFile (JStr ''/userData/settings.json'') (JStr ''utf-8''),
        Invoke (JFun ''cb'') [JNull, JObj []]]
   \<and> trace (snd (saveSettings example_env example_doc (call (JFun ''cb''))
       ((example_world [])
          \<lparr>interleave := [[JObj [(''fileName'', JStr ''other.json''),
                                  (''atomicSave'', JBool False)]]]\<rparr>)))
     = [Stat (JStr ''/userData''),
        WriteFile (JStr ''/userData/settings.json'') (JStr ''{"a":1}''),
        Invoke (JFun ''cb'') [JNull]]\<close>
proof -
  let ?w = \<open>(example_world [(''/userData/settings.json'', ''{}'')])
          \<lparr>interleave := [[], [JObj [(''fileName'', JStr ''other.json'')]],
                           [JObj [(''atomicSave'', JBool False)]], []]\<rparr> :: memfs world\<close>
  let ?s = \<open>(example_world [])
          \<lparr>interleave := [[JObj [(''fileName'', JStr ''other.json''),
                                  (''atomicSave'', JBool False)]]]\<rparr> :: memfs world\<close>
  let ?p = "JStr ''/userData/settings.json''"
  let ?q = "JStr ''/userData/other.json''"
  let ?dir = "JStr ''/userData''"
  let ?data = \<open>JStr ''{"a":1}''\<close>
  let ?empty = \<open>JStr ''{}''\<close>
  let ?w2 = "wait example_env (Stat ?p) ?w"
  let ?w3 = "wait example_env (ReadFile ?p (read_encoding (config ?w2))) ?w2"
  let ?w4 = "wait example_env (Stat ?dir) ?w3"
  let ?s2 = "wait example_env (Stat ?dir) ?s"
  let ?d = \<open>\<lparr>dirs = [''/userData''],
             files = [(''/userData/other.json'', ''{"a":1}''),
                      (''/userData/settings.json'', ''{}'')]\<rparr>\<close>
  let ?ud = \<open>\<lparr>dirs = [''/userData''],
             files = [(''/userData/other.json'', ''{}''),
                      (''/userData/settings.json'', ''{}'')]\<rparr>\<close>
  let ?sd = \<open>\<lparr>dirs = [''/userData''],
             files = [(''/userData/settings.json'', ''{"a":1}'')]\<rparr>\<close>
  note steps = configuration_is_read_step_by_step
      [where env = example_env and w = ?w and ?p1.0 = ?p and ?w2.0 = ?w2 and ?p2.0 = ?p
         and ?w3.0 = ?w3 and fn = "deliver (JFun ''cb'')"
         and s = ?s and doc = example_doc and sdata = ?data and sp = ?p and sdir = ?dir
         and ?s2.0 = ?s2 and satomic = False and sr = None and sd = ?sd
         and sfn = "call (JFun ''cb'')"
         and k = "JStr ''a''" and v = "JNum 1" and obj = "JObj []" and obj' = example_doc
         and data = ?data and ?p3.0 = ?q and dir = ?dir and ?w4.0 = ?w4 and atomic = False
         and r = None and d = ?d and cb = "''cb''" and rest = "[]"
         and uobj = "JObj []" and udata = ?empty and ur = None and ud = ?ud]
  have kp: "isKeyPath (JStr ''a'')" "truthy (flattenKeyPath (JStr ''a''))"
    by simp_all
  have path1: "getSettingsFilePath example_env (config ?w) = Inr ?p"
    by (simp add: store_defs example_defs)
  have stat1: "sys_stat example_env (disk ?w) ?p = None"
    "sys_stat example_env (disk ?w) ?dir = None"
    "sys_stat example_env (disk ?s) ?dir = None"
    by (simp_all add: example_defs)
  have path2: "getSettingsFilePath example_env (config ?w2) = Inr ?p"
    by (simp add: store_defs example_defs step_defs)
  have enc: "read_encoding (config ?w2) = JStr ''utf-8''"
    by (simp add: store_defs example_defs step_defs)
  have loaded: "loaded_document example_env (disk ?w) (config ?w2) (config ?w3) ?p
      = Inr (JObj [])"
    by (simp add: store_defs example_defs step_defs)
  have changed: "kph_setValueAtKeyPath example_env (JObj []) (flattenKeyPath (JStr ''a''))
        (JNum 1) = Inr example_doc"
    "kph_deleteValueAtKeyPath example_env (JObj []) (flattenKeyPath (JStr ''a'')) = Inr (JObj [])"
    by (simp_all add: example_defs key_path_segments_def props_of_def)
  have prep: "prepareSettingsData example_env (config ?w3) example_doc = Inr ?data"
    "prepareSettingsData example_env (config ?w3) (JObj []) = Inr ?empty"
    by (simp_all add: store_defs example_defs step_defs)
  have path3: "getSettingsFilePath example_env (config ?w3) = Inr ?q"
    "getSettingsDirPath example_env (config ?w3) = Inr ?dir"
    by (simp_all add: store_defs example_defs step_defs)
  have atomic: "False = truthy (cfg_get (config ?w4) ''atomicSave'')"
    by (simp add: store_defs example_defs step_defs)
  have wr: "writer example_env False (disk ?w) ?q ?data = (None, ?d)"
    "writer example_env False (disk ?w) ?q ?empty = (None, ?ud)"
    by (simp_all add: writer_def example_defs)
  have s_prep: "prepareSettingsData example_env (config ?s) example_doc = Inr ?data"
    "getSettingsFilePath example_env (config ?s) = Inr ?p"
    "getSettingsDirPath example_env (config ?s) = Inr ?dir"
    by (simp_all add: store_defs example_defs)
  have s_atomic: "False = truthy (cfg_get (config ?s2) ''atomicSave'')"
    by (simp add: store_defs example_defs step_defs)
  have s_wr: "writer example_env False (disk ?s) ?p ?data = (None, ?sd)"
    by (simp add: writer_def example_defs)
  from steps kp path1 stat1(1,2) path2 loaded changed(1) prep(1) path3 atomic wr(1)
  have run_set: "set_op example_env [JStr ''a'', JNum 1, JFun ''cb''] ?w
        = (Inr (), record_event (Invoke (JFun ''cb'') (write_done False None))
             ((wait example_env (write_event False ?q ?data) ?w4)\<lparr>disk := ?d\<rparr>))"
    by blast
  from steps kp path1 stat1(1,2) path2 loaded changed(2) prep(2) path3 atomic wr(2)
  have run_unset: "unset example_env [JStr ''a'', JFun ''cb''] ?w
        = (Inr (), record_event (Invoke (JFun ''cb'') (write_done False None))
             ((wait example_env (write_event False ?q ?empty) ?w4)\<lparr>disk := ?ud\<rparr>))"
    by blast
  from steps path1 stat1(1) path2
  have run_load: "loadSettings example_env (deliver (JFun ''cb'')) ?w
        = (Inr (), settle
             (case loaded_document example_env (disk ?w) (config ?w2) (config ?w3) ?p of
                Inl e \<Rightarrow> deliver (JFun ''cb'') [JError e] ?w3
              | Inr obj \<Rightarrow> try_catch (deliver (JFun ''cb'') [JNull, obj])
                             (\<lambda>e. deliver (JFun ''cb'') [JError e]) ?w3))"
    by blast
  from steps s_prep stat1(3) s_atomic s_wr
  have run_save: "saveSettings example_env example_doc (call (JFun ''cb'')) ?s
        = (Inr (), settle (call (JFun ''cb'') (write_done False None)
             ((wait example_env (write_event False ?p ?data) ?s2)\<lparr>disk := ?sd\<rparr>)))"
    by blast
  have start: "trace (example_world fs) = []" for fs
    by (simp add: example_world_def)
  have f1: "trace (snd (set_op example_env [JStr ''a'', JNum 1, JFun ''cb''] ?w))
      = [Stat ?p, ReadFile ?p (JStr ''utf-8''), Stat ?dir, WriteFile ?q ?data,
         Invoke (JFun ''cb'') [JNull]]"
    unfolding run_set
    by (simp add: record_event_def wait_simps enc start write_event_def write_done_def)
  have f2: "disk (snd (set_op example_env [JStr ''a'', JNum 1, JFun ''cb''] ?w)) = ?d"
    unfolding run_set by (simp add: record_event_def)
  have f3: "trace (snd (unset example_env [JStr ''a'', JFun ''cb''] ?w))
      = [Stat ?p, ReadFile ?p (JStr ''utf-8''), Stat ?dir, WriteFile ?q ?empty,
         Invoke (JFun ''cb'') [JNull]]"
    unfolding run_unset
    by (simp add: record_event_def wait_simps enc start write_event_def write_done_def)
  have f4: "trace (snd (loadSettings example_env (deliver (JFun ''cb'')) ?w))
      = [Stat ?p, ReadFile ?p (JStr ''utf-8''), Invoke (JFun ''cb'') [JNull, JObj []]]"
    unfolding run_load loaded
    by (simp add: deliver_def arg_simps try_catch_def settle_simps record_event_def
          wait_simps enc start)
  have f5: "trace (snd (saveSettings example_env example_doc (call (JFun ''cb'')) ?s))
      = [Stat ?dir, WriteFile ?p ?data, Invoke (JFun ''cb'') [JNull]]"
    unfolding run_save
    by (simp add: settle_simps record_event_def wait_simps start write_event_def
          write_done_def)
  show ?thesis
    by (intro conjI) (rule f1 f2 f3 f4 f5)+
qed

end
